theory Spec2Isabelle
  imports Main "HOL-Library.Word"
begin

unbundle bit_operations_syntax

section \<open>vcsnoop: the program and its environment\<close>

text \<open>
  The program \<^verbatim>\<open>vcsnoop.c\<close> is a sequence of system and library calls whose
  results decide the control flow. The embedding keeps every call of the source, in the
  source's order: a call appends one entry to a trace and takes its result from the
  environment, which answers the k-th call of a run with its k-th reply. A function of
  the source that can end the process (\<^verbatim>\<open>xerror\<close> calls \<^verbatim>\<open>exit\<close>) returns a
  \<open>result\<close>: \<open>Ret v\<close> when it returns \<open>v\<close> to its caller, \<open>Exit s\<close> when it has called
  \<^verbatim>\<open>exit(s)\<close>.
\<close>

subsection \<open>Constants of the system headers (Linux, glibc)\<close>

definition EXIT_SUCCESS :: int where "EXIT_SUCCESS = 0"
definition EXIT_FAILURE :: int where "EXIT_FAILURE = 1"
definition STDOUT_FILENO :: int where "STDOUT_FILENO = 1"

definition ENOENT :: int where "ENOENT = 2"
definition EIO :: int where "EIO = 5"
definition EAGAIN :: int where "EAGAIN = 11"
definition ENOTTY :: int where "ENOTTY = 25"
definition EPIPE :: int where "EPIPE = 32"
definition ETIME :: int where "ETIME = 62"

definition SIGKILL :: nat where "SIGKILL = 9"
definition SIGPIPE :: nat where "SIGPIPE = 13"
definition SIGSTOP :: nat where "SIGSTOP = 19"
definition SIGCANCEL :: nat where "SIGCANCEL = 32"
definition SIGSETXID :: nat where "SIGSETXID = 33"
definition NSIG :: nat where "NSIG = 65"
definition SIG_BLOCK :: int where "SIG_BLOCK = 0"
definition SIG_UNBLOCK :: int where "SIG_UNBLOCK = 1"

definition PIPE_BUF :: nat where "PIPE_BUF = 4096"
definition SHRT_MAX :: "16 word" where "SHRT_MAX = 32767"
definition O_RDWR :: int where "O_RDWR = 2"
definition POLLIN :: int where "POLLIN = 1"

definition ECHO :: "32 word" where "ECHO = 8"
definition TCSAFLUSH :: int where "TCSAFLUSH = 2"

definition S_IFMT :: "32 word" where "S_IFMT = 61440"
definition S_IFCHR :: "32 word" where "S_IFCHR = 8192"
definition TTY_MAJOR :: "32 word" where "TTY_MAJOR = 4"
definition MIN_NR_CONSOLES :: "32 word" where "MIN_NR_CONSOLES = 1"
definition MAX_NR_CONSOLES :: "32 word" where "MAX_NR_CONSOLES = 63"

definition TIOCL_SETSEL :: "8 word" where "TIOCL_SETSEL = 2"
definition TIOCL_PASTESEL :: "8 word" where "TIOCL_PASTESEL = 3"
definition TIOCL_SELLINE :: "16 word" where "TIOCL_SELLINE = 2"

definition PROGRAM_NAME :: string where "PROGRAM_NAME = ''vcsnoop''"

text \<open>The macros \<^verbatim>\<open>major\<close> and \<^verbatim>\<open>minor\<close> of \<^verbatim>\<open>sys/sysmacros.h\<close>, on a 64-bit
  \<^verbatim>\<open>dev_t\<close>, with an \<^verbatim>\<open>unsigned int\<close> result.\<close>

definition major :: "64 word \<Rightarrow> 32 word" where
  "major dev = ucast ((drop_bit 32 dev AND 0xfffff000) OR (drop_bit 8 dev AND 0x00000fff))"

definition minor :: "64 word \<Rightarrow> 32 word" where
  "minor dev = ucast ((drop_bit 12 dev AND 0xffffff00) OR (dev AND 0x000000ff))"

subsection \<open>Data\<close>

record termios =
  c_iflag :: "32 word"
  c_oflag :: "32 word"
  c_cflag :: "32 word"
  c_lflag :: "32 word"
  c_line :: "8 word"
  c_cc :: "8 word list"

record stat =
  st_mode :: "32 word"
  st_rdev :: "64 word"

text \<open>\<^verbatim>\<open>struct tiocl_selection\<close>; its fields \<^verbatim>\<open>xs\<close>, \<^verbatim>\<open>ys\<close>, \<^verbatim>\<open>xe\<close>, \<^verbatim>\<open>ye\<close> carry
  the prefix \<open>sel\<close> here.\<close>

record tiocl_selection =
  sel_xs :: "16 word"
  sel_ys :: "16 word"
  sel_xe :: "16 word"
  sel_ye :: "16 word"
  sel_mode :: "16 word"

datatype stream = Stdout | Stderr

datatype ioctl_req =
    VT_ACTIVATE "64 word"
  | VT_WAITACTIVE "64 word"
  | VT_GETSTATE "16 word"
  | TIOCLINUX "8 word" tiocl_selection

text \<open>One constructor for each call the source makes, with the arguments it passes. A call
  with an out-parameter also carries what the call stored there: \<open>Stat\<close> the
  \<^verbatim>\<open>struct stat\<close>, \<open>VT_GETSTATE\<close> the field \<^verbatim>\<open>v_active\<close>, \<open>Tcgetattr\<close> the
  attributes, \<open>Read\<close> the bytes placed in the buffer.\<close>

datatype call =
    Getopt "string list"
  | Fprintf stream string
  | Perror string
  | Stat string stat
  | Open string int
  | Ioctl int ioctl_req
  | Tcgetattr int termios
  | Tcsetattr int int termios
  | Atexit_restore_tty
  | Sigprocmask int "nat set"
  | Pthread_create int
  | Pthread_join
  | Poll int int int
  | Read int nat string
  | Write int string
  | Kill int nat

text \<open>A trace entry: the call, its return value, and the value of \<^verbatim>\<open>errno\<close> after it.\<close>

type_synonym event = "call \<times> int \<times> int"

text \<open>What the environment answers to one call: the return value, the \<^verbatim>\<open>errno\<close> it
  sets when the call fails, and the contents of the call's out-parameter (each call reads
  the field of its own out-parameter only).\<close>

record reply =
  rc :: int
  err :: int
  bytes :: string
  statbuf :: stat
  tio :: termios
  v_active :: "16 word"

text \<open>The state of a run: the environment (the replies, and whether \<^verbatim>\<open>getopt\<close> runs in
  its POSIX mode), the trace of the calls made so far, the thread's \<^verbatim>\<open>errno\<close>, the two
  file-scope variables of the source, and the number of times \<^verbatim>\<open>restore_tty\<close> has
  been registered with \<^verbatim>\<open>atexit\<close>.\<close>

record world =
  env :: "nat \<Rightarrow> reply"
  posixly_correct :: bool
  trace :: "event list"
  errno :: int
  tty_fd :: int
  orig_tio :: termios
  atexit_fns :: nat

datatype 'a result = Ret 'a | Exit int

type_synonym 'a prog = "world \<Rightarrow> 'a result \<times> world"

definition return :: "'a \<Rightarrow> 'a prog" where
  "return v w = (Ret v, w)"

definition then_do :: "'a prog \<Rightarrow> ('a \<Rightarrow> 'b prog) \<Rightarrow> 'b prog" where
  "then_do m f w = (case m w of (Ret v, w') \<Rightarrow> f v w' | (Exit s, w') \<Rightarrow> (Exit s, w'))"

definition c_exit :: "int \<Rightarrow> 'a prog" where
  "c_exit status w = (Exit status, w)"

definition set_errno :: "int \<Rightarrow> unit prog" where
  "set_errno e w = (Ret (), w\<lparr>errno := e\<rparr>)"

definition get_errno :: "int prog" where
  "get_errno w = (Ret (errno w), w)"

definition set_tty_fd :: "int \<Rightarrow> unit prog" where
  "set_tty_fd fd w = (Ret (), w\<lparr>tty_fd := fd\<rparr>)"

definition get_tty_fd :: "int prog" where
  "get_tty_fd w = (Ret (tty_fd w), w)"

definition set_orig_tio :: "termios \<Rightarrow> unit prog" where
  "set_orig_tio t w = (Ret (), w\<lparr>orig_tio := t\<rparr>)"

definition get_orig_tio :: "termios prog" where
  "get_orig_tio w = (Ret (orig_tio w), w)"

subsection \<open>The calls\<close>

definition next_reply :: "world \<Rightarrow> reply" where
  "next_reply w = env w (length (trace w))"

definition emit :: "call \<Rightarrow> int \<Rightarrow> world \<Rightarrow> world" where
  "emit c r w = w\<lparr>trace := trace w @ [(c, r, errno w)]\<rparr>"

text \<open>A call that returns a negative value and sets \<^verbatim>\<open>errno\<close> when it fails: the
  state after the call, and the call.\<close>

definition called :: "call \<Rightarrow> world \<Rightarrow> world" where
  "called c w =
     emit c (rc (next_reply w))
       (if rc (next_reply w) < 0 then w\<lparr>errno := err (next_reply w)\<rparr> else w)"

definition syscall :: "call \<Rightarrow> int prog" where
  "syscall c w = (Ret (rc (next_reply w)), called c w)"

definition fprintf :: "stream \<Rightarrow> string \<Rightarrow> int prog" where
  "fprintf fp s = syscall (Fprintf fp s)"

definition perror :: "string \<Rightarrow> unit prog" where
  "perror s w = (Ret (), emit (Perror s) 0 w)"

definition c_stat :: "string \<Rightarrow> (int \<times> stat) prog" where
  "c_stat path w =
     (let sb = statbuf (next_reply w)
      in then_do (syscall (Stat path sb)) (\<lambda>r. return (r, sb)) w)"

definition c_open :: "string \<Rightarrow> int \<Rightarrow> int prog" where
  "c_open path flags = syscall (Open path flags)"

definition ioctl :: "int \<Rightarrow> ioctl_req \<Rightarrow> int prog" where
  "ioctl fd req = syscall (Ioctl fd req)"

definition ioctl_getstate :: "int \<Rightarrow> (int \<times> 16 word) prog" where
  "ioctl_getstate fd w = (let v = v_active (next_reply w)
     in then_do (syscall (Ioctl fd (VT_GETSTATE v))) (\<lambda>r. return (r, v)) w)"

definition tcgetattr :: "int \<Rightarrow> (int \<times> termios) prog" where
  "tcgetattr fd w = (let t = tio (next_reply w)
     in then_do (syscall (Tcgetattr fd t)) (\<lambda>r. return (r, t)) w)"

definition tcsetattr :: "int \<Rightarrow> int \<Rightarrow> termios \<Rightarrow> int prog" where
  "tcsetattr fd act t = syscall (Tcsetattr fd act t)"

text \<open>\<^verbatim>\<open>atexit\<close> returns 0 when it has registered the function.\<close>

definition atexit_restore_tty :: "int prog" where
  "atexit_restore_tty w =
     (let r = rc (next_reply w); w' = emit Atexit_restore_tty r w
      in (Ret r, if r = 0 then w'\<lparr>atexit_fns := Suc (atexit_fns w')\<rparr> else w'))"

definition sigprocmask :: "int \<Rightarrow> nat set \<Rightarrow> int prog" where
  "sigprocmask how sigs = syscall (Sigprocmask how sigs)"

text \<open>\<^verbatim>\<open>pthread_create\<close> and \<^verbatim>\<open>pthread_join\<close> return 0 on success and an error
  number otherwise; they do not set \<^verbatim>\<open>errno\<close>. The start routine is always
  \<^verbatim>\<open>rw_thread\<close>; the call records its argument.\<close>

definition pthread_create :: "int \<Rightarrow> int prog" where
  "pthread_create arg w = (let r = rc (next_reply w) in (Ret r, emit (Pthread_create arg) r w))"

definition pthread_join :: "int prog" where
  "pthread_join w = (let r = rc (next_reply w) in (Ret r, emit Pthread_join r w))"

definition poll :: "int \<Rightarrow> int \<Rightarrow> int \<Rightarrow> int prog" where
  "poll fd events timeout = syscall (Poll fd events timeout)"

text \<open>\<^verbatim>\<open>read(fd, buf, count)\<close>: a failing call returns a negative value; otherwise it
  places at most \<open>count\<close> of the bytes the environment offers in the buffer and returns
  their number.\<close>

definition c_read :: "int \<Rightarrow> nat \<Rightarrow> (int \<times> string) prog" where
  "c_read fd count w =
     (let r = next_reply w
      in if rc r < 0
         then (Ret (rc r, []), emit (Read fd count []) (rc r) (w\<lparr>errno := err r\<rparr>))
         else (let d = take count (bytes r)
               in (Ret (int (length d), d), emit (Read fd count d) (int (length d)) w)))"

text \<open>\<^verbatim>\<open>write(fd, buf, n)\<close>, where \<open>buf\<close> stands for the first \<open>n\<close> bytes of the
  buffer: a failing call returns a negative value; otherwise it returns the number of
  bytes it has transferred, at most \<open>n\<close>.\<close>

definition c_write :: "int \<Rightarrow> string \<Rightarrow> int prog" where
  "c_write fd buf w =
     (let r = next_reply w
      in if rc r < 0
         then (Ret (rc r), emit (Write fd buf) (rc r) (w\<lparr>errno := err r\<rparr>))
         else (let m = min (rc r) (int (length buf))
               in (Ret m, emit (Write fd buf) m w)))"

definition kill :: "int \<Rightarrow> nat \<Rightarrow> int prog" where
  "kill pid sig = syscall (Kill pid sig)"

text \<open>\<^verbatim>\<open>sigfillset\<close> of glibc: every signal but the two that the thread library keeps for
  itself, \<^verbatim>\<open>SIGCANCEL\<close> and \<^verbatim>\<open>SIGSETXID\<close>.\<close>

definition sigfillset :: "nat set" where
  "sigfillset = {1..<NSIG} - {SIGCANCEL, SIGSETXID}"

definition sigaddset :: "nat set \<Rightarrow> nat \<Rightarrow> nat set" where
  "sigaddset sigs sig = insert sig sigs"

text \<open>\<^verbatim>\<open>getopt(argc, argv, "h-:")\<close>, first call. The arguments after \<^verbatim>\<open>argv[0]\<close> are
  scanned from the left. \<^verbatim>\<open>--\<close> ends the options. An argument that is \<^verbatim>\<open>-\<close> or does
  not start with \<^verbatim>\<open>-\<close> is no option: in POSIX mode the scan stops there, otherwise
  (the GNU default) the argument is moved behind the options and the scan goes on. The
  first character after the \<^verbatim>\<open>-\<close> of an option argument is the option: \<^verbatim>\<open>h\<close> takes no
  argument; \<^verbatim>\<open>-\<close> takes the rest of the argument as \<^verbatim>\<open>optarg\<close> (the rest is not
  empty, the argument not being \<^verbatim>\<open>--\<close>); for any other character \<^verbatim>\<open>getopt\<close> writes
  a diagnostic of its own to standard error and returns \<^verbatim>\<open>?\<close>. \<open>Done args\<close> stands
  for the return value \<open>-1\<close>, with \<open>args\<close> the arguments from \<^verbatim>\<open>optind\<close> on.\<close>

datatype getopt_result = Opt char string | Done "string list"

fun getopt :: "bool \<Rightarrow> string list \<Rightarrow> string list \<Rightarrow> getopt_result" where
  "getopt posix skipped [] = Done skipped"
| "getopt posix skipped (a # as) =
     (if a = ''--'' then Done (skipped @ as)
      else case a of
        c0 # c # rest \<Rightarrow>
          if c0 = CHR ''-'' then
            (if c = CHR ''h'' then Opt (CHR ''h'') []
             else if c = CHR ''-'' then Opt (CHR ''-'') rest
             else Opt (CHR ''?'') [])
          else if posix then Done (skipped @ a # as)
          else getopt posix (skipped @ [a]) as
      | _ \<Rightarrow>
          if posix then Done (skipped @ a # as)
          else getopt posix (skipped @ [a]) as)"

definition c_getopt :: "string list \<Rightarrow> getopt_result prog" where
  "c_getopt argv w =
     (let g = getopt (posixly_correct w) [] (tl argv);
          r = (case g of Opt c optarg \<Rightarrow> int (of_char c) | Done args \<Rightarrow> - 1)
      in (Ret g, emit (Getopt argv) r w))"

subsection \<open>The functions of the source\<close>

definition show_usage :: "stream \<Rightarrow> unit prog" where
  "show_usage fp =
     then_do (fprintf fp (''Usage: '' @ PROGRAM_NAME @ '' /dev/ttyN'' @ [CHR 0x0A])) (\<lambda>_.
     if fp \<noteq> Stdout then return ()
     else then_do (fprintf fp
       ([CHR 0x0A] @ ''Options:'' @ [CHR 0x0A] @
        ''  -h, --help  show this help message and exit'' @ [CHR 0x0A])) (\<lambda>_.
     return ()))"

definition xerror :: "string \<Rightarrow> 'a prog" where
  "xerror context =
     then_do get_errno (\<lambda>orig_errno.
     then_do (fprintf Stderr (PROGRAM_NAME @ '': '')) (\<lambda>_.
     then_do (set_errno orig_errno) (\<lambda>_.
     then_do (perror context) (\<lambda>_.
     c_exit EXIT_FAILURE))))"

definition chvt :: "int \<Rightarrow> 32 word \<Rightarrow> unit prog" where
  "chvt fd n =
     then_do (ioctl fd (VT_ACTIVATE (ucast n))) (\<lambda>rc.
     if rc < 0 then xerror ''VT_ACTIVATE''
     else then_do (ioctl fd (VT_WAITACTIVE (ucast n))) (\<lambda>rc.
     if rc < 0 then xerror ''VT_WAITACTIVE''
     else return ()))"

definition restore_tty :: "unit prog" where
  "restore_tty =
     then_do get_tty_fd (\<lambda>fd.
     if fd < 0 then return ()
     else then_do get_orig_tio (\<lambda>t.
     then_do (tcsetattr fd TCSAFLUSH t) (\<lambda>rc.
     if rc < 0 then xerror ''tcsetattr()''
     else set_tty_fd (- 1))))"

definition init_tty :: "int \<Rightarrow> unit prog" where
  "init_tty fd =
     then_do (tcgetattr fd) (\<lambda>(rc, tio).
     if rc < 0 then xerror ''tcgetattr()''
     else then_do (set_orig_tio tio) (\<lambda>_.
     then_do (tcsetattr fd TCSAFLUSH (tio\<lparr>c_lflag := c_lflag tio AND NOT ECHO\<rparr>)) (\<lambda>rc.
     if rc < 0 then xerror ''tcsetattr()''
     else then_do (set_tty_fd fd) (\<lambda>_.
     then_do atexit_restore_tty (\<lambda>_.
     return ())))))"

text \<open>One pass through the body of the \<^verbatim>\<open>while (1)\<close> loop of \<^verbatim>\<open>rw_thread\<close>, from the
  values of \<^verbatim>\<open>empty\<close> (here \<open>empty_flag\<close>) and \<^verbatim>\<open>write_error\<close> at its start to their values at its end,
  with how the pass ends: by \<^verbatim>\<open>break\<close> or by reaching the end of the body.\<close>

datatype loop_ctl = Break | Continue

definition rw_iter :: "int \<Rightarrow> bool \<Rightarrow> int \<Rightarrow> (loop_ctl \<times> bool \<times> int) prog" where
  "rw_iter fd empty_flag write_error =
     then_do (poll fd POLLIN 1000) (\<lambda>rc.
     if rc < 0 then xerror ''poll()''
     else if rc = 0 then
       (if empty_flag then then_do (set_errno ETIME) (\<lambda>_. xerror ''poll()'')
        else return (Break, empty_flag, write_error))
     else then_do (c_read fd PIPE_BUF) (\<lambda>(n, buf).
     if n = 0 then return (Break, empty_flag, write_error)
     else if n < 0 then xerror ''read()''
     else if write_error = 0 then
       then_do (c_write STDOUT_FILENO buf) (\<lambda>m.
       if m < 0 then then_do get_errno (\<lambda>e. return (Continue, False, e))
       else if m \<noteq> n then return (Continue, False, EIO)
       else return (Continue, False, write_error))
     else return (Continue, False, write_error)))"

text \<open>The loop. It ends when a pass ends by \<^verbatim>\<open>break\<close> or in \<^verbatim>\<open>exit\<close>; a run in
  which no pass does has no result (\<open>None\<close>). The result is \<^verbatim>\<open>write_error\<close>.\<close>

partial_function (option) rw_loop ::
  "int \<Rightarrow> bool \<Rightarrow> int \<Rightarrow> world \<Rightarrow> (int result \<times> world) option" where
  "rw_loop fd empty_flag write_error w =
     (case rw_iter fd empty_flag write_error w of
        (Exit s, w') \<Rightarrow> Some (Exit s, w')
      | (Ret (Break, empty_flag', write_error'), w') \<Rightarrow> Some (Ret write_error', w')
      | (Ret (Continue, empty_flag', write_error'), w') \<Rightarrow> rw_loop fd empty_flag' write_error' w')"

text \<open>The statements of \<^verbatim>\<open>rw_thread\<close> after the loop.\<close>

definition rw_finish :: "int \<Rightarrow> unit prog" where
  "rw_finish write_error =
     (if write_error = EPIPE then then_do (kill 0 SIGPIPE) (\<lambda>_. return ())
      else if write_error \<noteq> 0 then then_do (set_errno write_error) (\<lambda>_. xerror ''write()'')
      else return ())"

definition rw_thread :: "int \<Rightarrow> world \<Rightarrow> (unit result \<times> world) option" where
  "rw_thread fd w =
     (case rw_loop fd True 0 w of
        None \<Rightarrow> None
      | Some (Exit s, w') \<Rightarrow> Some (Exit s, w')
      | Some (Ret write_error, w') \<Rightarrow> Some (rw_finish write_error w'))"

text \<open>\<^verbatim>\<open>snoop\<close> runs on the main thread. \<^verbatim>\<open>pthread_create\<close> starts \<^verbatim>\<open>rw_thread\<close>
  on a thread of its own, so the calls of the worker are not part of the trace of
  \<open>snoop\<close>: the worker is the function \<open>rw_thread\<close> above, run on its own trace.\<close>

definition snoop :: "32 word \<Rightarrow> unit prog" where
  "snoop n =
     then_do (c_open ''/dev/tty'' O_RDWR) (\<lambda>fd.
     if fd < 0 then xerror ''/dev/tty'' else
     then_do (ioctl_getstate fd) (\<lambda>(rc, vts_v_active).
     if rc < 0 then xerror ''VT_GETSTATE'' else
     (let orig_vt = vts_v_active in
     then_do (chvt fd n) (\<lambda>_.
     (let sel = \<lparr>sel_xs = 1, sel_ys = 1, sel_xe = SHRT_MAX, sel_ye = SHRT_MAX,
                  sel_mode = TIOCL_SELLINE\<rparr> in
     then_do (ioctl 0 (TIOCLINUX TIOCL_SETSEL sel)) (\<lambda>rc.
     if rc < 0 then xerror ''TIOCL_SETSEL'' else
     then_do (chvt fd (ucast orig_vt)) (\<lambda>_.
     (let sig_mask = sigaddset sigfillset SIGPIPE in
     then_do (sigprocmask SIG_BLOCK sig_mask) (\<lambda>_.
     then_do (pthread_create fd) (\<lambda>rc.
     if rc < 0 then xerror ''pthread_create()'' else
     then_do (init_tty fd) (\<lambda>_.
     then_do (ioctl 0 (TIOCLINUX TIOCL_PASTESEL sel)) (\<lambda>rc.
     if rc < 0 then xerror ''TIOCL_PASTESEL'' else
     then_do pthread_join (\<lambda>rc.
     if rc < 0 then xerror ''pthread_join()'' else
     then_do restore_tty (\<lambda>_.
     then_do (sigprocmask SIG_UNBLOCK sig_mask) (\<lambda>_.
     return ())))))))))))))))"

definition baddev :: "string \<Rightarrow> 'a prog" where
  "baddev path = then_do (set_errno ENOTTY) (\<lambda>_. xerror path)"

text \<open>\<^verbatim>\<open>main\<close>. Every branch of the \<^verbatim>\<open>switch\<close> in the option loop ends in
  \<^verbatim>\<open>exit\<close>, so the loop body runs for the first option only and \<^verbatim>\<open>getopt\<close> is called
  once. With \<^verbatim>\<open>argc - optind = 1\<close>, the path is the one remaining argument.\<close>

definition main :: "string list \<Rightarrow> int prog" where
  "main argv =
     then_do (c_getopt argv) (\<lambda>g.
     case g of
       Opt opt optarg \<Rightarrow>
         if opt = CHR ''h'' then
           then_do (show_usage Stdout) (\<lambda>_. c_exit EXIT_SUCCESS)
         else if opt = CHR ''-'' \<and> optarg = ''help'' then
           then_do (show_usage Stdout) (\<lambda>_. c_exit EXIT_SUCCESS)
         else then_do (show_usage Stderr) (\<lambda>_. c_exit EXIT_FAILURE)
     | Done args \<Rightarrow>
         if length args \<noteq> 1 then
           then_do (show_usage Stderr) (\<lambda>_. c_exit EXIT_FAILURE)
         else
           (let path = hd args in
            then_do (c_stat path) (\<lambda>(rc, sb).
            if rc < 0 then xerror path
            else if st_mode sb AND S_IFMT \<noteq> S_IFCHR then baddev path
            else if major (st_rdev sb) \<noteq> TTY_MAJOR then baddev path
            else (let sb_minor = minor (st_rdev sb) in
              if sb_minor < MIN_NR_CONSOLES \<or> sb_minor > MAX_NR_CONSOLES then baddev path
              else then_do (snoop sb_minor) (\<lambda>_. return 0)))))"

text \<open>The end of the process: \<^verbatim>\<open>exit\<close>, called by the program or by the C runtime
  with the value \<^verbatim>\<open>main\<close> returns, runs the functions registered with \<^verbatim>\<open>atexit\<close>.
  A registered function that calls \<^verbatim>\<open>exit\<close> itself replaces the exit status; the
  functions still registered run after it.\<close>

fun run_atexit :: "nat \<Rightarrow> int \<Rightarrow> world \<Rightarrow> int \<times> world" where
  "run_atexit 0 status w = (status, w)"
| "run_atexit (Suc k) status w =
     (case restore_tty (w\<lparr>atexit_fns := k\<rparr>) of
        (Ret _, w') \<Rightarrow> run_atexit k status w'
      | (Exit status', w') \<Rightarrow> run_atexit k status' w')"

definition process_exit :: "int \<Rightarrow> world \<Rightarrow> int \<times> world" where
  "process_exit status w = run_atexit (atexit_fns w) status w"

definition vcsnoop :: "string list \<Rightarrow> world \<Rightarrow> int \<times> world" where
  "vcsnoop argv w =
     (case main argv w of
        (Ret status, w') \<Rightarrow> process_exit status w'
      | (Exit status, w') \<Rightarrow> process_exit status w')"

text \<open>The state in which the process starts: nothing called yet, and the file-scope
  variables as their initialisers leave them.\<close>

definition start :: "(nat \<Rightarrow> reply) \<Rightarrow> bool \<Rightarrow> world" where
  "start e posix =
     \<lparr>env = e, posixly_correct = posix, trace = [], errno = 0, tty_fd = - 1,
      orig_tio = \<lparr>c_iflag = 0, c_oflag = 0, c_cflag = 0, c_lflag = 0, c_line = 0, c_cc = []\<rparr>,
      atexit_fns = 0\<rparr>"

section \<open>Reading traces\<close>

text \<open>The entries a run has added to the trace.\<close>

definition since :: "world \<Rightarrow> world \<Rightarrow> event list" where
  "since w w' = drop (length (trace w)) (trace w')"

subsection \<open>The terminal\<close>

fun is_tcsetattr :: "event \<Rightarrow> bool" where
  "is_tcsetattr (Tcsetattr fd act t, r, e) = True"
| "is_tcsetattr _ = False"

definition restore_twice :: "unit prog" where
  "restore_twice = then_do restore_tty (\<lambda>_. restore_tty)"

subsection \<open>The worker\<close>

fun is_data_read :: "event \<Rightarrow> bool" where
  "is_data_read (Read fd n d, r, e) = (0 < r)"
| "is_data_read _ = False"

fun read_chunk :: "event \<Rightarrow> string list" where
  "read_chunk (Read fd n d, r, e) = (if 0 < r then [d] else [])"
| "read_chunk _ = []"

definition reads :: "event list \<Rightarrow> string list" where
  "reads tr = concat (map read_chunk tr)"

fun is_write :: "event \<Rightarrow> bool" where
  "is_write (Write fd b, r, e) = True"
| "is_write _ = False"

definition writes :: "event list \<Rightarrow> event list" where
  "writes tr = filter is_write tr"

fun write_chunk :: "event \<Rightarrow> string" where
  "write_chunk (Write fd b, r, e) = b"
| "write_chunk _ = []"

fun write_ok :: "event \<Rightarrow> bool" where
  "write_ok (Write fd b, r, e) = (r = int (length b))"
| "write_ok _ = True"

fun recorded :: "event \<Rightarrow> int" where
  "recorded (Write fd b, r, e) = (if r < 0 then e else if r \<noteq> int (length b) then EIO else 0)"
| "recorded _ = 0"

fun written :: "event \<Rightarrow> string" where
  "written (Write fd b, r, e) = (if fd = STDOUT_FILENO then take (nat r) b else [])"
| "written _ = []"

definition forwarded :: "event list \<Rightarrow> string" where
  "forwarded tr = concat (map written tr)"

fun wait_failed :: "event \<Rightarrow> bool" where
  "wait_failed (Poll fd ev t, r, e) = (r < 0)"
| "wait_failed (Read fd n d, r, e) = (r < 0)"
| "wait_failed _ = False"

fun loop_end :: "event \<Rightarrow> bool" where
  "loop_end (Poll fd ev t, r, e) = (r = 0)"
| "loop_end (Read fd n d, r, e) = (r = 0)"
| "loop_end _ = False"

fun is_report :: "event \<Rightarrow> bool" where
  "is_report (Fprintf fp s, r, e) = True"
| "is_report (Perror s, r, e) = True"
| "is_report (Kill p s, r, e) = True"
| "is_report _ = False"

definition forwarding :: "int \<Rightarrow> event list \<Rightarrow> bool" where
  "forwarding we evs \<longleftrightarrow>
     length (writes evs) \<le> length (reads evs) \<and>
     map write_chunk (writes evs) = take (length (writes evs)) (reads evs) \<and>
     (\<forall>ev\<in>set (butlast (writes evs)). recorded ev = 0) \<and>
     (\<forall>ev\<in>set (writes evs). fst ev = Write STDOUT_FILENO (write_chunk ev)) \<and>
     (we = 0 \<longrightarrow> length (writes evs) = length (reads evs) \<and>
        (\<forall>ev\<in>set (writes evs). recorded ev = 0)) \<and>
     (we \<noteq> 0 \<longrightarrow> writes evs \<noteq> [] \<and> we = recorded (last (writes evs))) \<and>
     \<not> list_ex is_report evs \<and> \<not> list_ex wait_failed evs"

fun write_sets_errno :: "event \<Rightarrow> bool" where
  "write_sets_errno (Write fd b, r, e) = (r < 0 \<longrightarrow> e \<noteq> 0)"
| "write_sets_errno _ = True"

section \<open>Environments\<close>

text \<open>A reply with return value 0 and empty out-parameters, and replies that differ from
  it in what one call looks at.\<close>

definition reply0 :: reply where
  "reply0 = \<lparr>rc = 0, err = 0, bytes = [], statbuf = \<lparr>st_mode = 0, st_rdev = 0\<rparr>,
     tio = \<lparr>c_iflag = 0, c_oflag = 0, c_cflag = 0, c_lflag = 0, c_line = 0, c_cc = []\<rparr>,
     v_active = 0\<rparr>"

definition returns :: "int \<Rightarrow> reply" where
  "returns r = reply0\<lparr>rc := r\<rparr>"

definition fails :: "int \<Rightarrow> reply" where
  "fails e = reply0\<lparr>rc := - 1, err := e\<rparr>"

definition delivers :: "string \<Rightarrow> reply" where
  "delivers s = reply0\<lparr>rc := int (length s), bytes := s\<rparr>"

definition attrs :: "32 word \<Rightarrow> reply" where
  "attrs lflag = reply0\<lparr>tio := \<lparr>c_iflag = 0, c_oflag = 0, c_cflag = 0, c_lflag = lflag,
     c_line = 0, c_cc = []\<rparr>\<rparr>"

text \<open>The environment that answers the first calls with the replies of a list, and every
  later call with \<open>reply0\<close>.\<close>

definition answers :: "reply list \<Rightarrow> nat \<Rightarrow> reply" where
  "answers rs k = (if k < length rs then rs ! k else reply0)"

text \<open>A terminal with \<^verbatim>\<open>ECHO\<close> and \<^verbatim>\<open>ICANON\<close> set, on which every call succeeds.\<close>

definition w_tty :: world where
  "w_tty = start (answers [attrs 10]) False"

text \<open>Nothing ever arrives: every wait times out.\<close>

definition w_silent :: world where
  "w_silent = start (answers []) False"

definition w_silent_end :: world where
  "w_silent_end = w_silent\<lparr>trace :=
     [(Poll 3 POLLIN 1000, 0, 0), (Fprintf Stderr ''vcsnoop: '', 0, ETIME),
      (Perror ''poll()'', 0, ETIME)], errno := ETIME\<rparr>"

text \<open>Two bytes arrive and are forwarded, then nothing more.\<close>

definition w_paste :: world where
  "w_paste = start (answers [returns 1, delivers ''hi'', returns 2]) False"

definition w_paste_end :: world where
  "w_paste_end = w_paste\<lparr>trace :=
     [(Poll 3 POLLIN 1000, 1, 0), (Read 3 PIPE_BUF ''hi'', 2, 0),
      (Write STDOUT_FILENO ''hi'', 2, 0), (Poll 3 POLLIN 1000, 0, 0)]\<rparr>"

text \<open>The same terminal after \<^verbatim>\<open>init_tty(3)\<close>, and after \<^verbatim>\<open>restore_tty()\<close>.\<close>

definition w_tty_armed :: world where
  "w_tty_armed = w_tty\<lparr>trace := [(Tcgetattr 3 (tio (attrs 10)), 0, 0),
     (Tcsetattr 3 TCSAFLUSH (tio (attrs 2)), 0, 0), (Atexit_restore_tty, 0, 0)],
     tty_fd := 3, orig_tio := tio (attrs 10), atexit_fns := 1\<rparr>"

definition w_tty_restored :: world where
  "w_tty_restored = w_tty_armed\<lparr>trace := trace w_tty_armed @
     [(Tcsetattr 3 TCSAFLUSH (tio (attrs 10)), 0, 0)], tty_fd := - 1\<rparr>"

text \<open>One chunk of three bytes arrives; its write transfers two.\<close>

definition w_short :: world where
  "w_short = start (answers [returns 1, delivers ''abc'', returns 2]) False"

definition w_short_end :: world where
  "w_short_end = w_short\<lparr>trace :=
     [(Poll 3 POLLIN 1000, 1, 0), (Read 3 PIPE_BUF ''abc'', 3, 0),
      (Write STDOUT_FILENO ''abc'', 2, 0), (Poll 3 POLLIN 1000, 0, 0),
      (Fprintf Stderr ''vcsnoop: '', 0, EIO), (Perror ''write()'', 0, EIO)], errno := EIO\<rparr>"

text \<open>The run of \<open>w_paste\<close> and of \<open>w_short\<close> at the head of the loop, after the first
  pass.\<close>

definition w_paste_head :: world where
  "w_paste_head = w_paste\<lparr>trace :=
     [(Poll 3 POLLIN 1000, 1, 0), (Read 3 PIPE_BUF ''hi'', 2, 0),
      (Write STDOUT_FILENO ''hi'', 2, 0)]\<rparr>"

definition w_short_head :: world where
  "w_short_head = w_short\<lparr>trace :=
     [(Poll 3 POLLIN 1000, 1, 0), (Read 3 PIPE_BUF ''abc'', 3, 0),
      (Write STDOUT_FILENO ''abc'', 2, 0)]\<rparr>"

text \<open>Two chunks arrive; the write of the first fails with \<^verbatim>\<open>EPIPE\<close>; then the terminal
  is at end of file: \<^verbatim>\<open>poll\<close> reports it readable and \<^verbatim>\<open>read\<close> returns 0. The second
  world is the run at the head of the loop after two passes.\<close>

definition w_eof :: world where
  "w_eof = start (answers [returns 1, delivers ''abc'', fails EPIPE, returns 1,
     delivers ''de'', returns 1, delivers '''']) False"

definition w_eof_head :: world where
  "w_eof_head = w_eof\<lparr>trace :=
     [(Poll 3 POLLIN 1000, 1, 0), (Read 3 PIPE_BUF ''abc'', 3, 0),
      (Write STDOUT_FILENO ''abc'', - 1, EPIPE),
      (Poll 3 POLLIN 1000, 1, EPIPE), (Read 3 PIPE_BUF ''de'', 2, EPIPE)], errno := EPIPE\<rparr>"

text \<open>The run of \<open>w_eof\<close> at the head of the loop after one pass.\<close>

definition w_eof_mid :: world where
  "w_eof_mid = w_eof\<lparr>trace :=
     [(Poll 3 POLLIN 1000, 1, 0), (Read 3 PIPE_BUF ''abc'', 3, 0),
      (Write STDOUT_FILENO ''abc'', - 1, EPIPE)], errno := EPIPE\<rparr>"

text \<open>One chunk of three bytes arrives; its write transfers two; then the terminal is at
  end of file. The second world is the run at the head of the loop after one pass.\<close>

definition w_short_eof :: world where
  "w_short_eof = start (answers [returns 1, delivers ''abc'', returns 2, returns 1,
     delivers '''']) False"

definition w_short_eof_head :: world where
  "w_short_eof_head = w_short_eof\<lparr>trace :=
     [(Poll 3 POLLIN 1000, 1, 0), (Read 3 PIPE_BUF ''abc'', 3, 0),
      (Write STDOUT_FILENO ''abc'', 2, 0)]\<rparr>"

section \<open>The passes of the worker's loop\<close>

text \<open>
  The loop of \<^verbatim>\<open>rw_thread\<close> may run for ever: as long as chunks arrive, it goes on. What
  it does is therefore stated pass by pass. \<open>rw_passes k fd empty write_error w\<close> is the
  state at the head of the loop after \<open>k\<close> passes that have all continued, if there are
  as many; the replies the environment holds for the next calls (\<open>reply_at w i\<close> for the
  \<open>i\<close>-th call from \<open>w\<close> on) decide what the next pass does: the wait times out, the
  terminal is at end of file, or a chunk arrives. The worlds \<open>polled\<close>, \<open>read_done\<close>,
  \<open>write_done\<close> and \<open>reported\<close> are the world after the \<^verbatim>\<open>poll\<close>, the \<^verbatim>\<open>read\<close>, the
  \<^verbatim>\<open>write\<close> of a pass, and after a message of \<^verbatim>\<open>xerror\<close>; \<open>loop_left\<close> is the world in
  which the loop is left by \<^verbatim>\<open>break\<close>.
\<close>

fun rw_passes :: "nat \<Rightarrow> int \<Rightarrow> bool \<Rightarrow> int \<Rightarrow> world \<Rightarrow> (bool \<times> int \<times> world) option" where
  "rw_passes 0 fd e we w = Some (e, we, w)"
| "rw_passes (Suc k) fd e we w =
     (case rw_iter fd e we w of
        (Ret (Continue, e', we'), w') \<Rightarrow> rw_passes k fd e' we' w'
      | _ \<Rightarrow> None)"

definition reply_at :: "world \<Rightarrow> nat \<Rightarrow> reply" where
  "reply_at w i = env w (length (trace w) + i)"

definition chunk :: "world \<Rightarrow> string" where
  "chunk w = take PIPE_BUF (bytes (reply_at w 1))"

definition times_out :: "world \<Rightarrow> bool" where
  "times_out w \<longleftrightarrow> rc (reply_at w 0) = 0"

definition end_of_file :: "world \<Rightarrow> bool" where
  "end_of_file w \<longleftrightarrow> 0 < rc (reply_at w 0) \<and> 0 \<le> rc (reply_at w 1) \<and> chunk w = []"

definition data_arrives :: "world \<Rightarrow> bool" where
  "data_arrives w \<longleftrightarrow> 0 < rc (reply_at w 0) \<and> 0 \<le> rc (reply_at w 1) \<and> chunk w \<noteq> []"

definition polled :: "int \<Rightarrow> world \<Rightarrow> world" where
  "polled fd w = called (Poll fd POLLIN 1000) w"

definition read_done :: "int \<Rightarrow> world \<Rightarrow> world" where
  "read_done fd w = emit (Read fd PIPE_BUF (chunk w)) (int (length (chunk w))) (polled fd w)"

definition loop_left :: "int \<Rightarrow> world \<Rightarrow> world" where
  "loop_left fd w = (if times_out w then polled fd w else read_done fd w)"

definition write_done :: "int \<Rightarrow> world \<Rightarrow> world" where
  "write_done fd w =
     (if rc (reply_at w 2) < 0
      then emit (Write STDOUT_FILENO (chunk w)) (rc (reply_at w 2))
             ((read_done fd w)\<lparr>errno := err (reply_at w 2)\<rparr>)
      else emit (Write STDOUT_FILENO (chunk w))
             (min (rc (reply_at w 2)) (int (length (chunk w)))) (read_done fd w))"

definition reported :: "string \<Rightarrow> world \<Rightarrow> world" where
  "reported ctx w =
     emit (Perror ctx) 0 ((called (Fprintf Stderr (PROGRAM_NAME @ '': '')) w)\<lparr>errno := errno w\<rparr>)"

section \<open>Reading the command line\<close>

text \<open>The two lines of text \<^verbatim>\<open>show_usage\<close> prints, and what the first result of
  \<^verbatim>\<open>getopt\<close> makes \<^verbatim>\<open>main\<close> do: show the help (\<^verbatim>\<open>-h\<close>, or \<^verbatim>\<open>--help\<close>, which
  \<^verbatim>\<open>getopt\<close> returns as the option \<^verbatim>\<open>-\<close> with the argument \<^verbatim>\<open>help\<close>), or reject the
  command line (any other option, or a number of remaining arguments other than one). An
  argument is positional when \<^verbatim>\<open>getopt\<close> takes it for no option and it is not
  \<^verbatim>\<open>--\<close>.\<close>

definition usage_line :: string where
  "usage_line = ''Usage: vcsnoop /dev/ttyN'' @ [CHR 0x0A]"

definition help_text :: string where
  "help_text = [CHR 0x0A] @ ''Options:'' @ [CHR 0x0A] @
     ''  -h, --help  show this help message and exit'' @ [CHR 0x0A]"

fun wants_help :: "getopt_result \<Rightarrow> bool" where
  "wants_help (Opt c optarg) = (c = CHR ''h'' \<or> (c = CHR ''-'' \<and> optarg = ''help''))"
| "wants_help (Done args) = False"

fun misuse :: "getopt_result \<Rightarrow> bool" where
  "misuse (Opt c optarg) = (\<not> (c = CHR ''h'' \<or> (c = CHR ''-'' \<and> optarg = ''help'')))"
| "misuse (Done args) = (length args \<noteq> 1)"

fun positional :: "string \<Rightarrow> bool" where
  "positional (c0 # c # rest) = (c0 \<noteq> CHR ''-'')"
| "positional _ = True"

section \<open>Running the program symbolically\<close>

text \<open>Rewrite rules that run a program from its first call on: each rule consumes the
  call at the head of a sequence and passes its result to the rest.\<close>

named_theorems exec

lemma then_do_return [exec]: "then_do (return v) f w = f v w"
  by (simp add: then_do_def return_def)

lemma then_do_c_exit [exec]: "then_do (c_exit s) f w = (Exit s, w)"
  by (simp add: then_do_def c_exit_def)

lemma then_do_assoc [exec]: "then_do (then_do m f) g w = then_do m (\<lambda>x. then_do (f x) g) w"
  by (simp add: then_do_def split: prod.splits result.splits)

lemma then_do_if [exec]:
  "then_do (if b then p else q) f w = (if b then then_do p f w else then_do q f w)"
  by simp

lemma then_do_set_errno [exec]: "then_do (set_errno e) f w = f () (w\<lparr>errno := e\<rparr>)"
  by (simp add: then_do_def set_errno_def)

lemma then_do_get_errno [exec]: "then_do get_errno f w = f (errno w) w"
  by (simp add: then_do_def get_errno_def)

lemma then_do_set_tty_fd [exec]: "then_do (set_tty_fd fd) f w = f () (w\<lparr>tty_fd := fd\<rparr>)"
  by (simp add: then_do_def set_tty_fd_def)

lemma then_do_get_tty_fd [exec]: "then_do get_tty_fd f w = f (tty_fd w) w"
  by (simp add: then_do_def get_tty_fd_def)

lemma then_do_set_orig_tio [exec]: "then_do (set_orig_tio t) f w = f () (w\<lparr>orig_tio := t\<rparr>)"
  by (simp add: then_do_def set_orig_tio_def)

lemma then_do_get_orig_tio [exec]: "then_do get_orig_tio f w = f (orig_tio w) w"
  by (simp add: then_do_def get_orig_tio_def)

lemma called_simps:
  "trace (called c w) =
     trace w @ [(c, rc (next_reply w), if rc (next_reply w) < 0 then err (next_reply w) else errno w)]"
  "errno (called c w) = (if rc (next_reply w) < 0 then err (next_reply w) else errno w)"
  by (simp_all add: called_def emit_def)

lemma called_fields [exec]:
  "env (called c w) = env w"
  "tty_fd (called c w) = tty_fd w"
  "orig_tio (called c w) = orig_tio w"
  "atexit_fns (called c w) = atexit_fns w"
  "posixly_correct (called c w) = posixly_correct w"
  "length (trace (called c w)) = Suc (length (trace w))"
  by (simp_all add: called_def emit_def)

text \<open>The same for a long run, where the sign of the return value is known: the entry a
  call adds, with \<^verbatim>\<open>errno\<close> as the call leaves it.\<close>

lemma called_trace: "trace (called c w) = trace w @ [(c, rc (next_reply w), errno (called c w))]"
  by (simp add: called_def emit_def)

lemma called_errno_ok: "0 \<le> rc (next_reply w) \<Longrightarrow> errno (called c w) = errno w"
  by (simp add: called_def emit_def)

lemma called_errno_failed: "rc (next_reply w) < 0 \<Longrightarrow> errno (called c w) = err (next_reply w)"
  by (simp add: called_def emit_def)

lemma emit_simps [exec]:
  "trace (emit c r w) = trace w @ [(c, r, errno w)]"
  "env (emit c r w) = env w"
  "errno (emit c r w) = errno w"
  "tty_fd (emit c r w) = tty_fd w"
  "orig_tio (emit c r w) = orig_tio w"
  "atexit_fns (emit c r w) = atexit_fns w"
  "posixly_correct (emit c r w) = posixly_correct w"
  by (simp_all add: emit_def)

lemma then_do_syscall [exec]: "then_do (syscall c) f w = f (rc (next_reply w)) (called c w)"
  by (simp add: then_do_def syscall_def)

lemma syscall_apply [exec]: "syscall c w = (Ret (rc (next_reply w)), called c w)"
  by (simp add: syscall_def)

lemma then_do_perror [exec]: "then_do (perror s) f w = f () (emit (Perror s) 0 w)"
  by (simp add: then_do_def perror_def)

lemma then_do_c_stat [exec]:
  "then_do (c_stat path) f w =
     f (rc (next_reply w), statbuf (next_reply w)) (called (Stat path (statbuf (next_reply w))) w)"
  by (simp add: then_do_def c_stat_def Let_def syscall_def return_def)

lemma then_do_ioctl_getstate [exec]:
  "then_do (ioctl_getstate fd) f w =
     f (rc (next_reply w), v_active (next_reply w))
       (called (Ioctl fd (VT_GETSTATE (v_active (next_reply w)))) w)"
  by (simp add: then_do_def ioctl_getstate_def Let_def syscall_def return_def)

lemma then_do_tcgetattr [exec]:
  "then_do (tcgetattr fd) f w =
     f (rc (next_reply w), tio (next_reply w)) (called (Tcgetattr fd (tio (next_reply w))) w)"
  by (simp add: then_do_def tcgetattr_def Let_def syscall_def return_def)

lemma then_do_atexit [exec]:
  "then_do atexit_restore_tty f w =
     f (rc (next_reply w))
       (if rc (next_reply w) = 0
        then (emit Atexit_restore_tty (rc (next_reply w)) w)\<lparr>atexit_fns := Suc (atexit_fns w)\<rparr>
        else emit Atexit_restore_tty (rc (next_reply w)) w)"
  by (simp add: then_do_def atexit_restore_tty_def Let_def emit_def)

lemma then_do_pthread_create [exec]:
  "then_do (pthread_create arg) f w =
     f (rc (next_reply w)) (emit (Pthread_create arg) (rc (next_reply w)) w)"
  by (simp add: then_do_def pthread_create_def Let_def)

lemma then_do_pthread_join [exec]:
  "then_do pthread_join f w = f (rc (next_reply w)) (emit Pthread_join (rc (next_reply w)) w)"
  by (simp add: then_do_def pthread_join_def Let_def)

lemma then_do_c_read [exec]:
  "then_do (c_read fd count) f w =
     (if rc (next_reply w) < 0
      then f (rc (next_reply w), [])
             (emit (Read fd count []) (rc (next_reply w)) (w\<lparr>errno := err (next_reply w)\<rparr>))
      else f (int (length (take count (bytes (next_reply w)))), take count (bytes (next_reply w)))
             (emit (Read fd count (take count (bytes (next_reply w))))
                (int (length (take count (bytes (next_reply w))))) w))"
  by (simp add: then_do_def c_read_def Let_def)

lemma then_do_c_write [exec]:
  "then_do (c_write fd buf) f w =
     (if rc (next_reply w) < 0
      then f (rc (next_reply w))
             (emit (Write fd buf) (rc (next_reply w)) (w\<lparr>errno := err (next_reply w)\<rparr>))
      else f (min (rc (next_reply w)) (int (length buf)))
             (emit (Write fd buf) (min (rc (next_reply w)) (int (length buf))) w))"
  by (simp add: then_do_def c_write_def Let_def)

lemma then_do_c_getopt [exec]:
  "then_do (c_getopt argv) f w =
     f (getopt (posixly_correct w) [] (tl argv))
       (emit (Getopt argv)
          (case getopt (posixly_correct w) [] (tl argv) of
             Opt c optarg \<Rightarrow> int (of_char c) | Done args \<Rightarrow> - 1) w)"
  by (simp add: then_do_def c_getopt_def Let_def)

lemma return_apply [exec]: "return v w = (Ret v, w)"
  by (simp add: return_def)

lemma c_exit_apply [exec]: "c_exit s w = (Exit s, w)"
  by (simp add: c_exit_def)

lemma set_tty_fd_apply [exec]: "set_tty_fd fd w = (Ret (), w\<lparr>tty_fd := fd\<rparr>)"
  by (simp add: set_tty_fd_def)

lemma xerror_apply [exec]:
  "xerror ctx w =
     (Exit EXIT_FAILURE,
      emit (Perror ctx) 0
        ((called (Fprintf Stderr (PROGRAM_NAME @ '': '')) w)\<lparr>errno := errno w\<rparr>))"
  by (simp add: xerror_def fprintf_def then_do_syscall then_do_get_errno then_do_set_errno
      then_do_perror c_exit_apply)

lemma then_do_xerror [exec]: "then_do (xerror ctx) f w = xerror ctx w"
  by (simp add: then_do_def xerror_apply)

lemmas call_defs = fprintf_def c_open_def ioctl_def tcsetattr_def sigprocmask_def poll_def
  kill_def next_reply_def

section \<open>The worker's loop\<close>

text \<open>The nine ways one pass through the loop body can go, each with the entries it adds
  to the trace.\<close>

lemma rw_iter_cases [consumes 1, case_names poll_error no_data quiet eof read_error discard write_error short_write forwarded]:
  assumes it: "rw_iter fd e we w = (res, w')"
  obtains
    r er x y where "r < 0" "res = Exit EXIT_FAILURE"
      "trace w' = trace w @ [(Poll fd POLLIN 1000, r, er),
         (Fprintf Stderr (PROGRAM_NAME @ '': ''), x, y), (Perror ''poll()'', 0, er)]"
  | x y where "e" "res = Exit EXIT_FAILURE"
      "trace w' = trace w @ [(Poll fd POLLIN 1000, 0, errno w),
         (Fprintf Stderr (PROGRAM_NAME @ '': ''), x, y), (Perror ''poll()'', 0, ETIME)]"
  | "\<not> e" "res = Ret (Break, e, we)"
      "trace w' = trace w @ [(Poll fd POLLIN 1000, 0, errno w)]"
  | r where "0 < r" "res = Ret (Break, e, we)"
      "trace w' = trace w @ [(Poll fd POLLIN 1000, r, errno w),
         (Read fd PIPE_BUF [], 0, errno w)]"
  | r rr er x y where "0 < r" "rr < 0" "res = Exit EXIT_FAILURE"
      "trace w' = trace w @ [(Poll fd POLLIN 1000, r, errno w), (Read fd PIPE_BUF [], rr, er),
         (Fprintf Stderr (PROGRAM_NAME @ '': ''), x, y), (Perror ''read()'', 0, er)]"
  | r d where "0 < r" "d \<noteq> []" "we \<noteq> 0" "res = Ret (Continue, False, we)"
      "trace w' = trace w @ [(Poll fd POLLIN 1000, r, errno w),
         (Read fd PIPE_BUF d, int (length d), errno w)]"
  | r d m ew where "0 < r" "d \<noteq> []" "we = 0" "m < 0" "res = Ret (Continue, False, ew)"
      "trace w' = trace w @ [(Poll fd POLLIN 1000, r, errno w),
         (Read fd PIPE_BUF d, int (length d), errno w), (Write STDOUT_FILENO d, m, ew)]"
  | r d m where "0 < r" "d \<noteq> []" "we = 0" "0 \<le> m" "m < int (length d)"
      "res = Ret (Continue, False, EIO)"
      "trace w' = trace w @ [(Poll fd POLLIN 1000, r, errno w),
         (Read fd PIPE_BUF d, int (length d), errno w), (Write STDOUT_FILENO d, m, errno w)]"
  | r d where "0 < r" "d \<noteq> []" "we = 0" "res = Ret (Continue, False, 0)"
      "trace w' = trace w @ [(Poll fd POLLIN 1000, r, errno w),
         (Read fd PIPE_BUF d, int (length d), errno w),
         (Write STDOUT_FILENO d, int (length d), errno w)]"
proof -
  note rules = that
  define n where "n = length (trace w)"
  define p where "p = rc (env w n)"
  define rr where "rr = rc (env w (Suc n))"
  define d where "d = take PIPE_BUF (bytes (env w (Suc n)))"
  define m where "m = rc (env w (Suc (Suc n)))"
  note defs = n_def p_def rr_def d_def m_def
  have res: "res = fst (rw_iter fd e we w)" and w': "w' = snd (rw_iter fd e we w)"
    using it by simp_all
  have A1: thesis if "p < 0"
  proof -
    from that have "\<exists>x y. res = Exit EXIT_FAILURE \<and> trace w' = trace w @ [(Poll fd POLLIN 1000, p, err (env w n)), (Fprintf Stderr (PROGRAM_NAME @ '': ''), x, y), (Perror ''poll()'', 0, err (env w n))]"
      unfolding res w' defs
      by (simp add: rw_iter_def call_defs exec called_simps if_distribR PIPE_BUF_def)
    with that show ?thesis using rules(1) by blast
  qed
  have B1: thesis if "p = 0" "e"
  proof -
    from that have "\<exists>x y. res = Exit EXIT_FAILURE \<and> trace w' = trace w @ [(Poll fd POLLIN 1000, 0, errno w), (Fprintf Stderr (PROGRAM_NAME @ '': ''), x, y), (Perror ''poll()'', 0, ETIME)]"
      unfolding res w' defs
      by (simp add: rw_iter_def call_defs exec called_simps if_distribR PIPE_BUF_def)
    with that show ?thesis using rules(2) by blast
  qed
  have C1: thesis if "p = 0" "\<not> e"
  proof -
    from that have "res = Ret (Break, e, we) \<and> trace w' = trace w @ [(Poll fd POLLIN 1000, 0, errno w)]"
      unfolding res w' defs
      by (simp add: rw_iter_def call_defs exec called_simps if_distribR PIPE_BUF_def)
    with that show ?thesis using rules(3) by blast
  qed
  have D1: thesis if "0 < p" "rr < 0"
  proof -
    from that have "\<exists>x y. res = Exit EXIT_FAILURE \<and> trace w' = trace w @ [(Poll fd POLLIN 1000, p, errno w), (Read fd PIPE_BUF [], rr, err (env w (Suc n))), (Fprintf Stderr (PROGRAM_NAME @ '': ''), x, y), (Perror ''read()'', 0, err (env w (Suc n)))]"
      unfolding res w' defs
      by (simp add: rw_iter_def call_defs exec called_simps if_distribR PIPE_BUF_def)
    with that show ?thesis using rules(5) by blast
  qed
  have E1: thesis if "0 < p" "0 \<le> rr" "d = []"
  proof -
    from that have "res = Ret (Break, e, we) \<and> trace w' = trace w @ [(Poll fd POLLIN 1000, p, errno w), (Read fd PIPE_BUF [], 0, errno w)]"
      unfolding res w' defs
      by (simp add: rw_iter_def call_defs exec called_simps if_distribR PIPE_BUF_def)
    with that show ?thesis using rules(4) by blast
  qed
  have F1: thesis if "0 < p" "0 \<le> rr" "d \<noteq> []" "we \<noteq> 0"
  proof -
    from that have "res = Ret (Continue, False, we) \<and> trace w' = trace w @ [(Poll fd POLLIN 1000, p, errno w), (Read fd PIPE_BUF d, int (length d), errno w)]"
      unfolding res w' defs
      by (simp add: rw_iter_def call_defs exec called_simps if_distribR PIPE_BUF_def)
    with that show ?thesis using rules(6) by blast
  qed
  have G1: thesis if "0 < p" "0 \<le> rr" "d \<noteq> []" "we = 0" "m < 0"
  proof -
    from that have "res = Ret (Continue, False, err (env w (Suc (Suc n)))) \<and> trace w' = trace w @ [(Poll fd POLLIN 1000, p, errno w), (Read fd PIPE_BUF d, int (length d), errno w), (Write STDOUT_FILENO d, m, err (env w (Suc (Suc n))))]"
      unfolding res w' defs
      by (simp add: rw_iter_def call_defs exec called_simps if_distribR PIPE_BUF_def)
    with that show ?thesis using rules(7) by blast
  qed
  have H1: thesis if "0 < p" "0 \<le> rr" "d \<noteq> []" "we = 0" "0 \<le> m" "m < int (length d)"
  proof -
    from that have "res = Ret (Continue, False, EIO) \<and> trace w' = trace w @ [(Poll fd POLLIN 1000, p, errno w), (Read fd PIPE_BUF d, int (length d), errno w), (Write STDOUT_FILENO d, m, errno w)]"
      unfolding res w' defs
      by (simp add: rw_iter_def call_defs exec called_simps if_distribR PIPE_BUF_def)
    with that show ?thesis using rules(8) by blast
  qed
  have I1: thesis if "0 < p" "0 \<le> rr" "d \<noteq> []" "we = 0" "int (length d) \<le> m"
  proof -
    from that have "res = Ret (Continue, False, 0) \<and> trace w' = trace w @ [(Poll fd POLLIN 1000, p, errno w), (Read fd PIPE_BUF d, int (length d), errno w), (Write STDOUT_FILENO d, int (length d), errno w)]"
      unfolding res w' defs
      by (simp add: rw_iter_def call_defs exec called_simps if_distribR PIPE_BUF_def)
    with that show ?thesis using rules(9) by blast
  qed
  show thesis
  proof (cases "p < 0")
    case True
    then show ?thesis by (rule A1)
  next
    case nonneg: False
    show ?thesis
    proof (cases "p = 0")
      case True
      then show ?thesis using B1 C1 by blast
    next
      case False
      with nonneg have pos: "0 < p" by simp
      show ?thesis
      proof (cases "rr < 0")
        case True
        with pos show ?thesis by (rule D1)
      next
        case False
        then have rr: "0 \<le> rr" by simp
        show ?thesis
        proof (cases "d = []")
          case True
          with pos rr show ?thesis by (rule E1)
        next
          case dne: False
          show ?thesis
          proof (cases "we = 0")
            case False
            with pos rr dne show ?thesis by (rule F1)
          next
            case True
            have "m < 0 \<or> (0 \<le> m \<and> m < int (length d)) \<or> int (length d) \<le> m" by linarith
            with pos rr dne True show ?thesis using G1 H1 I1 by blast
          qed
        qed
      qed
    qed
  qed
qed

text \<open>Partial correctness of the loop: what holds before the first pass and is kept by
  every pass that reaches the end of the body holds when the loop ends.\<close>

lemma rw_loop_rule:
  assumes run: "rw_loop fd e we w = Some (res, w')"
    and inv: "I e we w"
    and step: "\<And>e we w e' we' w1. I e we w \<Longrightarrow> rw_iter fd e we w = (Ret (Continue, e', we'), w1) \<Longrightarrow> I e' we' w1"
    and brk: "\<And>e we w e' we' w1. I e we w \<Longrightarrow> rw_iter fd e we w = (Ret (Break, e', we'), w1) \<Longrightarrow> Q (Ret we') w1"
    and ex: "\<And>e we w s w1. I e we w \<Longrightarrow> rw_iter fd e we w = (Exit s, w1) \<Longrightarrow> Q (Exit s) w1"
  shows "Q res w'"
proof -
  have "fd = fd \<longrightarrow> I e we w \<longrightarrow> Q (fst (res, w')) (snd (res, w'))"
  proof (rule rw_loop.raw_induct
      [where P = "\<lambda>fd' e we w y. fd' = fd \<longrightarrow> I e we w \<longrightarrow> Q (fst y) (snd y)", OF _ run])
    fix f fd' e we w y
    assume IH: "\<And>fd' e we w y. f fd' e we w = Some y \<Longrightarrow> fd' = fd \<longrightarrow> I e we w \<longrightarrow> Q (fst y) (snd y)"
      and body: "(case rw_iter fd' e we w of
          (Ret (Break, e', we'), w') \<Rightarrow> Some (Ret we', w')
        | (Ret (Continue, e', we'), w') \<Rightarrow> f fd' e' we' w'
        | (Exit s, w') \<Rightarrow> Some (Exit s, w')) = Some y"
    show "fd' = fd \<longrightarrow> I e we w \<longrightarrow> Q (fst y) (snd y)"
    proof (intro impI)
      assume fd: "fd' = fd" and I: "I e we w"
      obtain r w1 where it: "rw_iter fd e we w = (r, w1)" by (cases "rw_iter fd e we w")
      show "Q (fst y) (snd y)"
      proof (cases r)
        case (Exit s)
        with body it fd have "y = (Exit s, w1)" by simp
        with ex[OF I] it Exit show ?thesis by simp
      next
        case (Ret v)
        obtain c e' we' where v: "v = (c, e', we')" by (cases v)
        show ?thesis
        proof (cases c)
          case Break
          with body it fd Ret v have "y = (Ret we', w1)" by simp
          with brk[OF I] it Ret v Break show ?thesis by simp
        next
          case Continue
          with body it fd Ret v have "f fd e' we' w1 = Some y" by simp
          moreover have "I e' we' w1" using step[OF I] it Ret v Continue by simp
          ultimately show ?thesis using IH by blast
        qed
      qed
    qed
  qed
  with inv show ?thesis by simp
qed

section \<open>Concrete runs\<close>

lemmas env_defs = start_def answers_def reply0_def returns_def fails_def delivers_def attrs_def

lemma run_init_tty: "init_tty 3 w_tty = (Ret (), w_tty_armed)"
  by (simp add: init_tty_def exec called_simps call_defs if_distribR w_tty_def w_tty_armed_def env_defs
      called_def emit_def ECHO_def)

lemma run_restore_tty: "restore_tty w_tty_armed = (Ret (), w_tty_restored)"
  by (simp add: restore_tty_def exec called_simps call_defs if_distribR w_tty_def w_tty_armed_def
      w_tty_restored_def env_defs called_def emit_def)

lemma run_silent: "rw_loop 3 True 0 w_silent = Some (Exit EXIT_FAILURE, w_silent_end)"
  apply (subst rw_loop.simps)
  apply (simp add: rw_iter_def call_defs exec called_simps if_distribR w_silent_def w_silent_end_def env_defs
      called_def emit_def PROGRAM_NAME_def ETIME_def)
  done

lemma run_paste: "rw_loop 3 True 0 w_paste = Some (Ret 0, w_paste_end)"
  apply (subst rw_loop.simps)
  apply (simp add: rw_iter_def call_defs exec called_simps if_distribR w_paste_def env_defs PIPE_BUF_def)
  apply (subst rw_loop.simps)
  apply (simp add: rw_iter_def call_defs exec called_simps if_distribR w_paste_def w_paste_end_def env_defs
      called_def emit_def PIPE_BUF_def)
  done

section \<open>The terminal mode guard\<close>

lemma init_tty_armed:
  assumes "init_tty fd w = (Ret (), w1)"
  shows "tty_fd w1 = fd \<and> orig_tio w1 = tio (next_reply w)"
  using assms
  by (auto simp add: init_tty_def exec called_simps call_defs if_distribR split: if_splits)

text \<open>
  C6. After \<^verbatim>\<open>init_tty(fd)\<close> has returned, two calls of \<^verbatim>\<open>restore_tty\<close> in
  succession issue \<^verbatim>\<open>tcsetattr\<close> exactly once, on \<open>fd\<close>, with \<^verbatim>\<open>TCSAFLUSH\<close> and the
  attributes \<^verbatim>\<open>tcgetattr\<close> had read; from any state, two calls in succession issue it at
  most once; after a call of \<^verbatim>\<open>restore_tty\<close> that has returned, a second call returns
  and leaves the state as it is; and with nothing suspended (\<^verbatim>\<open>tty_fd < 0\<close>)
  \<^verbatim>\<open>restore_tty\<close> returns and leaves the state as it is.
\<close>

theorem restore_tty_idempotent:
  "(init_tty fd w = (Ret (), w1) \<and> 0 \<le> fd \<longrightarrow>
      map fst (filter is_tcsetattr (since w1 (snd (restore_twice w1)))) =
        [Tcsetattr fd TCSAFLUSH (tio (next_reply w))]) \<and>
   length (filter is_tcsetattr (since w1 (snd (restore_twice w1)))) \<le> 1 \<and>
   (restore_tty w1 = (Ret (), w2) \<longrightarrow> restore_tty w2 = (Ret (), w2)) \<and>
   (tty_fd w0 < 0 \<longrightarrow> restore_tty w0 = (Ret (), w0))"
proof (intro conjI impI)
  assume "init_tty fd w = (Ret (), w1) \<and> 0 \<le> fd"
  then have "tty_fd w1 = fd" "orig_tio w1 = tio (next_reply w)" "0 \<le> fd"
    using init_tty_armed by blast+
  then show "map fst (filter is_tcsetattr (since w1 (snd (restore_twice w1)))) =
        [Tcsetattr fd TCSAFLUSH (tio (next_reply w))]"
    by (simp add: restore_twice_def restore_tty_def exec called_simps call_defs if_distribR since_def)
next
  show "length (filter is_tcsetattr (since w1 (snd (restore_twice w1)))) \<le> 1"
    by (simp add: restore_twice_def restore_tty_def exec called_simps call_defs if_distribR since_def)
next
  assume "restore_tty w1 = (Ret (), w2)"
  then show "restore_tty w2 = (Ret (), w2)"
    by (auto simp add: restore_tty_def exec called_simps call_defs if_distribR split: if_splits)
next
  assume "tty_fd w0 < 0"
  then show "restore_tty w0 = (Ret (), w0)"
    by (simp add: restore_tty_def exec called_simps)
qed

theorem restore_tty_idempotent_witness:
  "(init_tty 3 w_tty = (Ret (), w_tty_armed) \<and> (0::int) \<le> 3) \<and>
   restore_tty w_tty_armed = (Ret (), w_tty_restored) \<and>
   tty_fd w_tty < 0 \<and>
   map fst (filter is_tcsetattr (since w_tty_armed (snd (restore_twice w_tty_armed)))) =
     [Tcsetattr 3 TCSAFLUSH (tio (next_reply w_tty))] \<and>
   restore_tty w_tty_restored = (Ret (), w_tty_restored) \<and>
   restore_tty w_tty = (Ret (), w_tty)"
  using restore_tty_idempotent [of 3 w_tty w_tty_armed w_tty_restored w_tty]
    run_init_tty run_restore_tty
  by (simp add: w_tty_def start_def)

section \<open>The relay worker\<close>

subsection \<open>One pass of the loop\<close>

text \<open>What a pass does, by the replies the environment holds for its calls.\<close>

lemma xerror_reported: "xerror ctx w = (Exit EXIT_FAILURE, reported ctx w)"
  by (simp add: xerror_apply reported_def)

lemmas pass_defs = rw_iter_def call_defs reply_at_def chunk_def times_out_def end_of_file_def
  data_arrives_def polled_def read_done_def write_done_def if_distribR PIPE_BUF_def

lemma pass_poll_error:
  "rc (reply_at w 0) < 0 \<Longrightarrow> rw_iter fd e we w = (Exit EXIT_FAILURE, reported ''poll()'' (polled fd w))"
  by (simp add: pass_defs exec xerror_reported del: xerror_apply)

lemma pass_no_data:
  "times_out w \<Longrightarrow> e \<Longrightarrow>
   rw_iter fd e we w = (Exit EXIT_FAILURE, reported ''poll()'' ((polled fd w)\<lparr>errno := ETIME\<rparr>))"
  by (simp add: pass_defs exec xerror_reported del: xerror_apply)

lemma pass_quiet:
  "times_out w \<Longrightarrow> \<not> e \<Longrightarrow> rw_iter fd e we w = (Ret (Break, e, we), polled fd w)"
  by (simp add: pass_defs exec)

lemma pass_eof:
  "end_of_file w \<Longrightarrow> rw_iter fd e we w = (Ret (Break, e, we), read_done fd w)"
  by (simp add: pass_defs exec)

lemma pass_read_error:
  "0 < rc (reply_at w 0) \<Longrightarrow> rc (reply_at w 1) < 0 \<Longrightarrow>
   rw_iter fd e we w =
     (Exit EXIT_FAILURE, reported ''read()''
        (emit (Read fd PIPE_BUF []) (rc (reply_at w 1)) ((polled fd w)\<lparr>errno := err (reply_at w 1)\<rparr>)))"
  by (simp add: pass_defs exec xerror_reported del: xerror_apply)

lemma pass_discard:
  "data_arrives w \<Longrightarrow> we \<noteq> 0 \<Longrightarrow> rw_iter fd e we w = (Ret (Continue, False, we), read_done fd w)"
  by (simp add: pass_defs exec)

lemma pass_write_error:
  "data_arrives w \<Longrightarrow> rc (reply_at w 2) < 0 \<Longrightarrow>
   rw_iter fd e 0 w = (Ret (Continue, False, err (reply_at w 2)), write_done fd w)"
  by (simp add: pass_defs exec)

lemma pass_short_write:
  "data_arrives w \<Longrightarrow> 0 \<le> rc (reply_at w 2) \<Longrightarrow> rc (reply_at w 2) < int (length (chunk w)) \<Longrightarrow>
   rw_iter fd e 0 w = (Ret (Continue, False, EIO), write_done fd w)"
  by (simp add: pass_defs exec)

lemma pass_forwarded:
  "data_arrives w \<Longrightarrow> int (length (chunk w)) \<le> rc (reply_at w 2) \<Longrightarrow>
   rw_iter fd e 0 w = (Ret (Continue, False, 0), write_done fd w)"
  by (simp add: pass_defs exec)

lemma rw_loop_break:
  "rw_iter fd e we w = (Ret (Break, e', we'), w') \<Longrightarrow> rw_loop fd e we w = Some (Ret we', w')"
  by (subst rw_loop.simps) simp

lemma rw_loop_exit:
  "rw_iter fd e we w = (Exit s, w') \<Longrightarrow> rw_loop fd e we w = Some (Exit s, w')"
  by (subst rw_loop.simps) simp

lemma rw_loop_continue:
  "rw_iter fd e we w = (Ret (Continue, e', we'), w') \<Longrightarrow>
   rw_loop fd e we w = rw_loop fd e' we' w'"
  by (subst rw_loop.simps) simp

lemma rw_passes_Suc:
  assumes "rw_passes (Suc k) fd e we w = Some s"
  obtains e' we' w' where "rw_iter fd e we w = (Ret (Continue, e', we'), w')"
    "rw_passes k fd e' we' w' = Some s"
  using assms
  by (auto split: prod.splits result.splits loop_ctl.splits)

lemma rw_loop_passes:
  "rw_passes k fd e we w = Some (e', we', w') \<Longrightarrow> rw_loop fd e we w = rw_loop fd e' we' w'"
proof (induction k arbitrary: e we w)
  case 0
  then show ?case by simp
next
  case (Suc k)
  from Suc.prems obtain e1 we1 w1 where it: "rw_iter fd e we w = (Ret (Continue, e1, we1), w1)"
    and rest: "rw_passes k fd e1 we1 w1 = Some (e', we', w')"
    by (rule rw_passes_Suc)
  from rw_loop_continue[OF it] Suc.IH[OF rest] show ?case by simp
qed

lemma rw_passes_rule:
  assumes "rw_passes k fd e we w = Some (e', we', w')" and "I e we w"
    and step: "\<And>e we w e' we' w1. I e we w \<Longrightarrow>
      rw_iter fd e we w = (Ret (Continue, e', we'), w1) \<Longrightarrow> I e' we' w1"
  shows "I e' we' w'"
  using assms(1,2)
proof (induction k arbitrary: e we w)
  case 0
  then show ?case by simp
next
  case (Suc k)
  from Suc.prems(1) obtain e1 we1 w1 where it: "rw_iter fd e we w = (Ret (Continue, e1, we1), w1)"
    and rest: "rw_passes k fd e1 we1 w1 = Some (e', we', w')"
    by (rule rw_passes_Suc)
  from step[OF Suc.prems(2) it] have "I e1 we1 w1" .
  from Suc.IH[OF rest this] show ?case .
qed

lemma head_invariant:
  assumes head: "rw_passes k fd True 0 w = Some (e, we, w1)"
  shows "trace w1 = trace w @ since w w1 \<and> (e \<longrightarrow> w1 = w) \<and>
    e = (\<not> list_ex is_data_read (since w w1)) \<and> forwarding we (since w w1) \<and>
    \<not> list_ex loop_end (since w w1)"
proof -
  define I where "I = (\<lambda>(e::bool) (we::int) (w1::world). \<exists>evs. trace w1 = trace w @ evs \<and>
     (e \<longrightarrow> w1 = w) \<and> e = (\<not> list_ex is_data_read evs) \<and> forwarding we evs \<and>
     \<not> list_ex loop_end evs)"
  have "I e we w1"
  proof (rule rw_passes_rule[OF head, where I = I])
    show "I True 0 w" by (simp add: I_def forwarding_def writes_def reads_def)
  next
    fix e we w0 e' we' w1
    assume I: "I e we w0" and it: "rw_iter fd e we w0 = (Ret (Continue, e', we'), w1)"
    from it I show "I e' we' w1"
      by (cases rule: rw_iter_cases)
        (auto simp add: I_def forwarding_def writes_def reads_def EIO_def)
  qed
  then show ?thesis by (auto simp add: I_def since_def)
qed

subsection \<open>Traces of the worker\<close>

lemma not_in_butlast_is_last:
  assumes "x \<in> set xs" "x \<notin> set (butlast xs)"
  shows "xs \<noteq> [] \<and> x = last xs"
proof -
  from assms(1) have ne: "xs \<noteq> []" by auto
  then have "set xs = set (butlast xs) \<union> {last xs}"
    by (metis append_butlast_last_id set_append list.simps(15) empty_set)
  with assms ne show ?thesis by auto
qed

lemma failed_write_is_last:
  assumes fw: "forwarding we body" and mem: "ev \<in> set body" and wr: "is_write ev"
    and rec: "recorded ev \<noteq> 0"
  shows "last (writes body) = ev \<and> we = recorded ev"
proof -
  from mem wr have in_w: "ev \<in> set (writes body)" by (simp add: writes_def)
  from fw rec have "ev \<notin> set (butlast (writes body))"
    by (auto simp add: forwarding_def)
  with in_w have l: "writes body \<noteq> [] \<and> ev = last (writes body)"
    by (rule not_in_butlast_is_last)
  moreover from fw in_w rec have "we \<noteq> 0" by (auto simp add: forwarding_def)
  with fw have "we = recorded (last (writes body))" by (simp add: forwarding_def)
  ultimately show ?thesis by simp
qed

lemma in_writes: "ev \<in> set tr \<Longrightarrow> is_write ev \<Longrightarrow> ev \<in> set (writes tr)"
  by (simp add: writes_def)

lemma forwarding_clean:
  assumes "forwarding 0 tr" "ev \<in> set tr" "is_write ev"
  shows "recorded ev = 0"
  using assms in_writes[of ev tr] by (simp add: forwarding_def)

lemma writes_append [simp]: "writes (a @ b) = writes a @ writes b"
  by (simp add: writes_def)

lemma reads_append [simp]: "reads (a @ b) = reads a @ reads b"
  by (simp add: reads_def)

lemma forwarded_append [simp]: "forwarded (a @ b) = forwarded a @ forwarded b"
  by (simp add: forwarded_def)

lemma forwarded_writes: "forwarded tr = concat (map written (writes tr))"
proof (induction tr)
  case Nil
  show ?case by (simp add: forwarded_def writes_def)
next
  case (Cons ev tr)
  have "\<not> is_write ev \<Longrightarrow> written ev = []"
    by (cases ev rule: is_write.cases) simp_all
  with Cons show ?case by (auto simp add: forwarded_def writes_def)
qed

lemma written_ok:
  "fst ev = Write STDOUT_FILENO (write_chunk ev) \<Longrightarrow> write_ok ev \<Longrightarrow> written ev = write_chunk ev"
  by (cases ev rule: is_write.cases) simp_all

lemma recorded_zero_ok:
  assumes "recorded ev = 0" "fst ev = Write STDOUT_FILENO (write_chunk ev)"
    and "list_all write_sets_errno tr" "ev \<in> set tr"
  shows "write_ok ev"
proof -
  define b where "b = write_chunk ev"
  obtain c r e where "ev = (c, r, e)" by (cases ev)
  with assms(2) b_def have ev: "ev = (Write STDOUT_FILENO b, r, e)" by simp
  show ?thesis
  proof (cases "r < 0")
    case True
    with assms(3,4) ev have "e \<noteq> 0" by (auto simp add: list_all_iff)
    with assms(1) ev True show ?thesis by simp
  next
    case False
    with assms(1) ev show ?thesis by (simp add: EIO_def split: if_splits)
  qed
qed

lemma recorded_nonzero_failed: "recorded ev \<noteq> 0 \<Longrightarrow> \<not> write_ok ev"
  by (cases ev rule: recorded.cases) (auto split: if_splits)

lemma forwarding_posix:
  assumes fw: "forwarding we body"
    and posix: "list_all write_sets_errno body"
  shows "list_all write_ok (butlast (writes body))"
    and "map write_chunk (writes body) = take (length (writes body)) (reads body)"
    and "we = 0 \<Longrightarrow> list_all write_ok (writes body) \<and> map write_chunk (writes body) = reads body"
    and "we \<noteq> 0 \<Longrightarrow> \<not> list_all write_ok (writes body) \<and> we = recorded (last (writes body))"
    and "forwarded body = concat (take (length (writes body) - 1) (reads body)) @
           (if writes body = [] then [] else written (last (writes body)))"
proof -
  have sub: "set (writes body) \<subseteq> set body" by (auto simp add: writes_def)
  have ok: "write_ok ev" if "ev \<in> set (writes body)" "recorded ev = 0" for ev
    using that fw sub posix recorded_zero_ok[of ev body] by (auto simp add: forwarding_def)
  have bl: "set (butlast (writes body)) \<subseteq> set (writes body)"
    by (auto dest: in_set_butlastD)
  show 1: "list_all write_ok (butlast (writes body))"
    using fw ok bl by (auto simp add: forwarding_def list_all_iff)
  show 2: "map write_chunk (writes body) = take (length (writes body)) (reads body)"
    using fw by (simp add: forwarding_def)
  show "we = 0 \<Longrightarrow> list_all write_ok (writes body) \<and> map write_chunk (writes body) = reads body"
    using fw ok by (auto simp add: forwarding_def list_all_iff)
  show "we \<noteq> 0 \<Longrightarrow> \<not> list_all write_ok (writes body) \<and> we = recorded (last (writes body))"
  proof -
    assume nz: "we \<noteq> 0"
    with fw have ne: "writes body \<noteq> []" and we: "we = recorded (last (writes body))"
      by (simp_all add: forwarding_def)
    from we nz have "\<not> write_ok (last (writes body))" by (simp add: recorded_nonzero_failed)
    with ne we show ?thesis by (auto simp add: list_all_iff)
  qed
  show "forwarded body = concat (take (length (writes body) - 1) (reads body)) @
           (if writes body = [] then [] else written (last (writes body)))"
  proof (cases "writes body = []")
    case True
    then show ?thesis by (simp add: forwarded_writes)
  next
    case False
    then have split: "writes body = butlast (writes body) @ [last (writes body)]" by simp
    have wr: "fst ev = Write STDOUT_FILENO (write_chunk ev)" if "ev \<in> set (writes body)" for ev
      using that fw by (simp add: forwarding_def)
    have "map written (butlast (writes body)) = map write_chunk (butlast (writes body))"
      using 1 bl wr by (auto simp add: list_all_iff written_ok)
    also have "\<dots> = butlast (map write_chunk (writes body))" by (simp add: map_butlast)
    also have "\<dots> = take (length (writes body) - 1) (reads body)"
      using 2 fw by (simp add: forwarding_def butlast_take)
    finally have "concat (map written (butlast (writes body))) =
        concat (take (length (writes body) - 1) (reads body))" by simp
    moreover have "forwarded body =
        concat (map written (butlast (writes body))) @ written (last (writes body))"
      by (subst forwarded_writes, subst split) simp
    ultimately show ?thesis using False by simp
  qed
qed

lemma trace_polled:
  "trace (polled fd w) = trace w @ [(Poll fd POLLIN 1000, rc (reply_at w 0), errno (polled fd w))]"
  "rc (reply_at w 0) \<ge> 0 \<Longrightarrow> errno (polled fd w) = errno w"
  by (simp_all add: polled_def called_def emit_def reply_at_def next_reply_def)

lemma trace_read_done:
  "trace (read_done fd w) = trace (polled fd w) @
     [(Read fd PIPE_BUF (chunk w), int (length (chunk w)), errno (polled fd w))]"
  "errno (read_done fd w) = errno (polled fd w)"
  by (simp_all add: read_done_def emit_def)

lemma trace_reported:
  "\<exists>r e. trace (reported ctx w) = trace w @ [(Fprintf Stderr (PROGRAM_NAME @ '': ''), r, e),
     (Perror ctx, 0, errno w)]"
  by (simp add: reported_def emit_def called_def)

lemma trace_signalled:
  "\<exists>r e. trace (called (Kill 0 SIGPIPE) w) = trace w @ [(Kill 0 SIGPIPE, r, e)]"
  by (simp add: emit_def called_def)

lemma since_prefix: "trace w1 = trace w @ a \<Longrightarrow> trace w2 = trace w1 @ b \<Longrightarrow> since w w2 = a @ b"
  by (simp add: since_def)

lemma since_self: "trace w2 = trace w1 @ b \<Longrightarrow> since w1 w2 = b"
  by (simp add: since_def)

lemma thread_of_loop:
  "rw_loop fd True 0 w = Some (Ret we, W) \<Longrightarrow> rw_thread fd w = Some (rw_finish we W)"
  "rw_loop fd True 0 w = Some (Exit s, W) \<Longrightarrow> rw_thread fd w = Some (Exit s, W)"
  by (simp_all add: rw_thread_def)

lemma rw_finish_cases:
  "rw_finish EPIPE W = (Ret (), called (Kill 0 SIGPIPE) W)"
  "we \<noteq> 0 \<Longrightarrow> we \<noteq> EPIPE \<Longrightarrow>
     rw_finish we W = (Exit EXIT_FAILURE, reported ''write()'' (W\<lparr>errno := we\<rparr>))"
  "rw_finish 0 W = (Ret (), W)"
  by (simp_all add: rw_finish_def kill_def exec xerror_reported EPIPE_def del: xerror_apply)

lemma loop_leaves:
  assumes head: "rw_passes k fd True 0 w = Some (e, we, w1)"
    and ends: "(times_out w1 \<and> \<not> e) \<or> end_of_file w1"
  shows "rw_loop fd True 0 w = Some (Ret we, loop_left fd w1)"
proof -
  have "rw_iter fd e we w1 = (Ret (Break, e, we), loop_left fd w1)"
  proof (cases "times_out w1")
    case True
    with ends have "\<not> e" by (auto simp add: times_out_def end_of_file_def)
    with True show ?thesis by (simp add: pass_quiet loop_left_def)
  next
    case False
    with ends have "end_of_file w1" by simp
    with False show ?thesis by (simp add: pass_eof loop_left_def)
  qed
  then have "rw_loop fd e we w1 = Some (Ret we, loop_left fd w1)" by (rule rw_loop_break)
  with rw_loop_passes[OF head] show ?thesis by simp
qed

lemma loop_left_trace:
  assumes "times_out w1 \<or> end_of_file w1"
  shows "trace (loop_left fd w1) = trace w1 @
     (if times_out w1 then [(Poll fd POLLIN 1000, 0, errno w1)]
      else [(Poll fd POLLIN 1000, rc (reply_at w1 0), errno w1),
            (Read fd PIPE_BUF [], 0, errno w1)])"
    and "errno (loop_left fd w1) = errno w1"
  using assms
  by (auto simp add: loop_left_def times_out_def end_of_file_def trace_polled trace_read_done)

lemma rw_passes_snoc:
  "rw_passes k fd e we w = Some (e1, we1, w1) \<Longrightarrow>
   rw_iter fd e1 we1 w1 = (Ret (Continue, e2, we2), w2) \<Longrightarrow>
   rw_passes (Suc k) fd e we w = Some (e2, we2, w2)"
proof (induction k arbitrary: e we w)
  case 0
  then show ?case by simp
next
  case (Suc k)
  from Suc.prems(1) obtain e' we' w' where it: "rw_iter fd e we w = (Ret (Continue, e', we'), w')"
    and rest: "rw_passes k fd e' we' w' = Some (e1, we1, w1)"
    by (rule rw_passes_Suc)
  from Suc.IH[OF rest Suc.prems(2)] it show ?case by simp
qed

lemma finish_events:
  assumes ends: "times_out w1 \<or> end_of_file w1"
  shows "map fst (since w1 (called (Kill 0 SIGPIPE) (loop_left fd w1))) =
      (if times_out w1 then [Poll fd POLLIN 1000] else [Poll fd POLLIN 1000, Read fd PIPE_BUF []]) @
      [Kill 0 SIGPIPE]"
    and "map fst (since w1 (reported ctx ((loop_left fd w1)\<lparr>errno := x\<rparr>))) =
      (if times_out w1 then [Poll fd POLLIN 1000] else [Poll fd POLLIN 1000, Read fd PIPE_BUF []]) @
      [Fprintf Stderr (PROGRAM_NAME @ '': ''), Perror ctx]"
    and "last (since w1 (reported ctx ((loop_left fd w1)\<lparr>errno := x\<rparr>))) = (Perror ctx, 0, x)"
proof -
  note ll = loop_left_trace(1)[OF ends, of fd]
  obtain r e where "trace (called (Kill 0 SIGPIPE) (loop_left fd w1)) =
      trace (loop_left fd w1) @ [(Kill 0 SIGPIPE, r, e)]"
    using trace_signalled by blast
  with ll show "map fst (since w1 (called (Kill 0 SIGPIPE) (loop_left fd w1))) =
      (if times_out w1 then [Poll fd POLLIN 1000] else [Poll fd POLLIN 1000, Read fd PIPE_BUF []]) @
      [Kill 0 SIGPIPE]"
    by (simp add: since_def)
  obtain r e where rep: "trace (reported ctx ((loop_left fd w1)\<lparr>errno := x\<rparr>)) =
      trace ((loop_left fd w1)\<lparr>errno := x\<rparr>) @ [(Fprintf Stderr (PROGRAM_NAME @ '': ''), r, e),
        (Perror ctx, 0, errno ((loop_left fd w1)\<lparr>errno := x\<rparr>))]"
    using trace_reported by blast
  with ll show "map fst (since w1 (reported ctx ((loop_left fd w1)\<lparr>errno := x\<rparr>))) =
      (if times_out w1 then [Poll fd POLLIN 1000] else [Poll fd POLLIN 1000, Read fd PIPE_BUF []]) @
      [Fprintf Stderr (PROGRAM_NAME @ '': ''), Perror ctx]"
    by (simp add: since_def)
  from rep ll show "last (since w1 (reported ctx ((loop_left fd w1)\<lparr>errno := x\<rparr>))) = (Perror ctx, 0, x)"
    by (simp add: since_def)
qed

lemma write_done_events:
  assumes "data_arrives w0"
  shows "since w0 (write_done fd w0) =
     [(Poll fd POLLIN 1000, rc (reply_at w0 0), errno w0),
      (Read fd PIPE_BUF (chunk w0), int (length (chunk w0)), errno w0),
      (Write STDOUT_FILENO (chunk w0),
         if rc (reply_at w0 2) < 0 then rc (reply_at w0 2)
         else min (rc (reply_at w0 2)) (int (length (chunk w0))),
         if rc (reply_at w0 2) < 0 then err (reply_at w0 2) else errno w0)]"
  using assms
  by (simp add: since_def write_done_def data_arrives_def trace_read_done trace_polled emit_def)

lemma no_writes_after:
  assumes ends: "times_out w1 \<or> end_of_file w1"
    and pre: "trace w1 = trace w @ since w w1"
  shows "writes (since w (snd (rw_finish we (loop_left fd w1)))) = writes (since w w1) \<and>
    reads (since w (snd (rw_finish we (loop_left fd w1)))) = reads (since w w1) \<and>
    forwarded (since w (snd (rw_finish we (loop_left fd w1)))) = forwarded (since w w1)"
proof -
  from loop_left_trace(1)[OF ends, of fd] ends
  obtain a where a: "trace (loop_left fd w1) = trace w1 @ a" "writes a = []" "reads a = []"
    "forwarded a = []"
    by (cases "times_out w1") (auto simp add: writes_def reads_def forwarded_def)
  have "\<exists>b. trace (snd (rw_finish we (loop_left fd w1))) = trace (loop_left fd w1) @ b \<and>
      writes b = [] \<and> reads b = [] \<and> forwarded b = []"
  proof (cases "we = 0")
    case True
    then show ?thesis by (simp add: rw_finish_cases writes_def reads_def forwarded_def)
  next
    case nz: False
    show ?thesis
    proof (cases "we = EPIPE")
      case True
      obtain r e where "trace (called (Kill 0 SIGPIPE) (loop_left fd w1)) =
          trace (loop_left fd w1) @ [(Kill 0 SIGPIPE, r, e)]"
        using trace_signalled by blast
      with True show ?thesis by (simp add: rw_finish_cases writes_def reads_def forwarded_def)
    next
      case False
      obtain r e where "trace (reported ''write()'' ((loop_left fd w1)\<lparr>errno := we\<rparr>)) =
          trace ((loop_left fd w1)\<lparr>errno := we\<rparr>) @
            [(Fprintf Stderr (PROGRAM_NAME @ '': ''), r, e),
             (Perror ''write()'', 0, errno ((loop_left fd w1)\<lparr>errno := we\<rparr>))]"
        using trace_reported by blast
      with nz False show ?thesis
        by (simp add: rw_finish_cases writes_def reads_def forwarded_def)
    qed
  qed
  then obtain b where b: "trace (snd (rw_finish we (loop_left fd w1))) = trace (loop_left fd w1) @ b"
    "writes b = []" "reads b = []" "forwarded b = []" by blast
  from a(1) b(1) have "trace (snd (rw_finish we (loop_left fd w1))) = trace w1 @ (a @ b)" by simp
  from since_prefix[OF pre this] a b show ?thesis by simp
qed

subsection \<open>When the loop returns\<close>

text \<open>A pass in which a chunk arrives continues the loop, whatever becomes of the chunk;
  every other pass leaves it. So the loop returns if and only if, at the head of the loop
  after some number of passes, no chunk arrives: the worker returns or exits as soon as a
  wait or a \<^verbatim>\<open>read\<close> fails, a wait times out or the terminal is at end of file, and
  never before.\<close>

lemma pass_continues:
  assumes "data_arrives w"
  shows "\<exists>we' w1. rw_iter fd e we w = (Ret (Continue, False, we'), w1)"
proof (cases "we = 0")
  case False
  with assms show ?thesis by (simp add: pass_discard)
next
  case True
  consider "rc (reply_at w 2) < 0"
    | "0 \<le> rc (reply_at w 2)" "rc (reply_at w 2) < int (length (chunk w))"
    | "int (length (chunk w)) \<le> rc (reply_at w 2)"
    by linarith
  then show ?thesis
  proof cases
    case 1
    with assms True show ?thesis by (simp add: pass_write_error)
  next
    case 2
    with assms True show ?thesis by (simp add: pass_short_write)
  next
    case 3
    with assms True show ?thesis by (simp add: pass_forwarded)
  qed
qed

lemma pass_stops:
  assumes "\<not> data_arrives w"
  shows "\<exists>y. rw_loop fd e we w = Some y"
proof (cases "rc (reply_at w 0) < 0")
  case True
  from rw_loop_exit[OF pass_poll_error[OF True]] show ?thesis by blast
next
  case nonneg: False
  show ?thesis
  proof (cases "rc (reply_at w 0) = 0")
    case True
    then have tmo: "times_out w" by (simp add: times_out_def)
    show ?thesis
    proof (cases e)
      case True
      from rw_loop_exit[OF pass_no_data[OF tmo True]] show ?thesis by blast
    next
      case False
      from rw_loop_break[OF pass_quiet[OF tmo False]] show ?thesis by blast
    qed
  next
    case False
    with nonneg have pos: "0 < rc (reply_at w 0)" by simp
    show ?thesis
    proof (cases "rc (reply_at w 1) < 0")
      case True
      from rw_loop_exit[OF pass_read_error[OF pos True]] show ?thesis by blast
    next
      case False
      with pos assms have "end_of_file w" by (simp add: data_arrives_def end_of_file_def)
      from rw_loop_break[OF pass_eof[OF this]] show ?thesis by blast
    qed
  qed
qed

lemma rw_loop_returns_iff:
  "(\<exists>y. rw_loop fd e we w = Some y) \<longleftrightarrow>
   (\<exists>k e' we' w1. rw_passes k fd e we w = Some (e', we', w1) \<and> \<not> data_arrives w1)"
proof
  assume "\<exists>k e' we' w1. rw_passes k fd e we w = Some (e', we', w1) \<and> \<not> data_arrives w1"
  then obtain k e' we' w1 where head: "rw_passes k fd e we w = Some (e', we', w1)"
    and stop: "\<not> data_arrives w1" by blast
  from pass_stops[OF stop] rw_loop_passes[OF head] show "\<exists>y. rw_loop fd e we w = Some y"
    by simp
next
  assume "\<exists>y. rw_loop fd e we w = Some y"
  then obtain res w' where run: "rw_loop fd e we w = Some (res, w')" by (cases) auto
  define I where "I = (\<lambda>e' we' w1. \<exists>k. rw_passes k fd e we w = Some (e', we', w1))"
  define Q where "Q = (\<lambda>(r :: int result) (w2 :: world).
     \<exists>k e' we' w1. rw_passes k fd e we w = Some (e', we', w1) \<and> \<not> data_arrives w1)"
  have stop: "Q r w2" if "I e1 we1 w1" and nc: "\<And>e2 we2. rw_iter fd e1 we1 w1 \<noteq> (Ret (Continue, e2, we2), w2)"
      "rw_iter fd e1 we1 w1 = (x, w2)" for e1 we1 w1 r w2 x
  proof -
    have "\<not> data_arrives w1"
    proof
      assume "data_arrives w1"
      from pass_continues[OF this, of fd e1 we1] nc show False by auto
    qed
    with that(1) show ?thesis by (auto simp add: I_def Q_def)
  qed
  have "Q res w'"
  proof (rule rw_loop_rule[OF run, where I = I and Q = Q])
    have "rw_passes 0 fd e we w = Some (e, we, w)" by simp
    then show "I e we w" unfolding I_def by blast
  next
    fix e0 we0 w0 e' we' w1
    assume "I e0 we0 w0" "rw_iter fd e0 we0 w0 = (Ret (Continue, e', we'), w1)"
    then show "I e' we' w1" unfolding I_def using rw_passes_snoc by blast
  next
    fix e0 we0 w0 e' we' w1
    assume "I e0 we0 w0" "rw_iter fd e0 we0 w0 = (Ret (Break, e', we'), w1)"
    then show "Q (Ret we') w1" by (intro stop[of e0 we0 w0]) auto
  next
    fix e0 we0 w0 s w1
    assume "I e0 we0 w0" "rw_iter fd e0 we0 w0 = (Exit s, w1)"
    then show "Q (Exit s) w1" by (intro stop[of e0 we0 w0]) auto
  qed
  then show "\<exists>k e' we' w1. rw_passes k fd e we w = Some (e', we', w1) \<and> \<not> data_arrives w1"
    by (simp add: Q_def)
qed

subsection \<open>Runs of the worker\<close>

lemmas run_simps = rw_iter_def rw_finish_def call_defs exec called_simps if_distribR env_defs
  called_def emit_def PIPE_BUF_def EPIPE_def EIO_def PROGRAM_NAME_def

lemma head_paste: "rw_passes (Suc 0) 3 True 0 w_paste = Some (False, 0, w_paste_head)"
  by (simp add: run_simps w_paste_def w_paste_head_def)

lemma head_eof: "rw_passes (Suc (Suc 0)) 3 True 0 w_eof = Some (False, EPIPE, w_eof_head)"
  by (simp add: run_simps w_eof_def w_eof_head_def)

lemma head_short: "rw_passes (Suc 0) 3 True 0 w_short = Some (False, EIO, w_short_head)"
  by (simp add: run_simps w_short_def w_short_head_def)

lemma head_eof_mid: "rw_passes (Suc 0) 3 True 0 w_eof = Some (False, EPIPE, w_eof_mid)"
  by (simp add: run_simps w_eof_def w_eof_mid_def)

lemma head_short_eof:
  "rw_passes (Suc 0) 3 True 0 w_short_eof = Some (False, EIO, w_short_eof_head)"
  by (simp add: run_simps w_short_eof_def w_short_eof_head_def)

lemmas head_defs = times_out_def end_of_file_def data_arrives_def reply_at_def chunk_def
  polled_def read_done_def loop_left_def reported_def since_def

lemma silent_facts:
  "rw_passes 0 3 True 0 w_silent = Some (True, 0, w_silent)"
  "times_out w_silent"
  "\<not> list_ex is_data_read (since w_silent w_silent)"
  "since w_silent (reported ''poll()'' ((polled 3 w_silent)\<lparr>errno := ETIME\<rparr>)) =
     [(Poll 3 POLLIN 1000, 0, 0), (Fprintf Stderr ''vcsnoop: '', 0, ETIME),
      (Perror ''poll()'', 0, ETIME)]"
  by (simp_all add: head_defs w_silent_def env_defs writes_def reads_def forwarded_def write_done_def
      called_def emit_def next_reply_def PIPE_BUF_def EPIPE_def EIO_def PROGRAM_NAME_def)

lemma paste_facts:
  "times_out w_paste_head"
  "list_ex is_data_read (since w_paste w_paste_head)"
  "since w_paste (polled 3 w_paste_head) =
     [(Poll 3 POLLIN 1000, 1, 0), (Read 3 PIPE_BUF ''hi'', 2, 0),
      (Write STDOUT_FILENO ''hi'', 2, 0), (Poll 3 POLLIN 1000, 0, 0)]"
  by (simp_all add: head_defs w_paste_def w_paste_head_def env_defs writes_def reads_def forwarded_def write_done_def
      called_def emit_def next_reply_def PIPE_BUF_def EPIPE_def EIO_def PROGRAM_NAME_def)

lemma eof_facts:
  "(Write STDOUT_FILENO ''abc'', - 1, EPIPE) \<in> set (since w_eof w_eof_head)"
  "end_of_file w_eof_head"
  "\<not> times_out w_eof_head"
  "since w_eof_head (called (Kill 0 SIGPIPE) (loop_left 3 w_eof_head)) =
     [(Poll 3 POLLIN 1000, 1, EPIPE), (Read 3 PIPE_BUF [], 0, EPIPE), (Kill 0 SIGPIPE, 0, EPIPE)]"
  "data_arrives w_eof"
  "rc (reply_at w_eof 2) < 0"
  "err (reply_at w_eof 2) = EPIPE"
  "list_all write_sets_errno (since w_eof w_eof_head)"
  "reads (since w_eof w_eof_head) = [''abc'', ''de'']"
  "map write_chunk (writes (since w_eof w_eof_head)) = [''abc'']"
  "forwarded (since w_eof w_eof_head) = []"
  "last (writes (since w_eof w_eof_head)) = (Write STDOUT_FILENO ''abc'', - 1, EPIPE)"
  by (simp_all add: head_defs w_eof_def w_eof_head_def env_defs writes_def reads_def forwarded_def write_done_def
      called_def emit_def next_reply_def PIPE_BUF_def EPIPE_def EIO_def PROGRAM_NAME_def)

lemma short_facts:
  "(Write STDOUT_FILENO ''abc'', 2, 0) \<in> set (since w_short w_short_head)"
  "times_out w_short_head"
  "since w_short_head (reported ''write()'' ((loop_left 3 w_short_head)\<lparr>errno := EIO\<rparr>)) =
     [(Poll 3 POLLIN 1000, 0, 0), (Fprintf Stderr ''vcsnoop: '', 0, EIO),
      (Perror ''write()'', 0, EIO)]"
  "data_arrives w_short"
  "0 \<le> rc (reply_at w_short 2)"
  "rc (reply_at w_short 2) < int (length (chunk w_short))"
  by (simp_all add: head_defs w_short_def w_short_head_def env_defs writes_def reads_def forwarded_def write_done_def
      called_def emit_def next_reply_def PIPE_BUF_def EPIPE_def EIO_def PROGRAM_NAME_def)

lemma short_eof_facts:
  "(Write STDOUT_FILENO ''abc'', 2, 0) \<in> set (since w_short_eof w_short_eof_head)"
  "end_of_file w_short_eof_head"
  "\<not> times_out w_short_eof_head"
  "since w_short_eof_head
     (reported ''write()'' ((loop_left 3 w_short_eof_head)\<lparr>errno := EIO\<rparr>)) =
     [(Poll 3 POLLIN 1000, 1, 0), (Read 3 PIPE_BUF [], 0, 0),
      (Fprintf Stderr ''vcsnoop: '', 0, EIO), (Perror ''write()'', 0, EIO)]"
  by (simp_all add: head_defs w_short_eof_def w_short_eof_head_def env_defs writes_def reads_def forwarded_def write_done_def
      called_def emit_def next_reply_def PIPE_BUF_def EPIPE_def EIO_def PROGRAM_NAME_def)

lemma eof_mid_facts:
  "list_all write_sets_errno (since w_eof w_eof_mid)"
  "data_arrives w_eof_mid"
  "EPIPE \<noteq> 0"
  "since w_eof_mid (read_done 3 w_eof_mid) =
     [(Poll 3 POLLIN 1000, 1, EPIPE), (Read 3 PIPE_BUF ''de'', 2, EPIPE)]"
  by (simp_all add: head_defs w_eof_def w_eof_mid_def env_defs writes_def reads_def forwarded_def write_done_def
      called_def emit_def next_reply_def PIPE_BUF_def EPIPE_def EIO_def PROGRAM_NAME_def)

lemma run_short: "rw_thread 3 w_short = Some (Exit EXIT_FAILURE, w_short_end)"
  unfolding rw_thread_def
  apply (subst rw_loop.simps)
  apply (simp add: run_simps w_short_def)
  apply (subst rw_loop.simps)
  apply (simp add: run_simps w_short_def w_short_end_def)
  done

subsection \<open>Timeout\<close>

text \<open>
  C1. Let the loop of the worker be at its head, after any number of passes, and let the
  next wait for readability time out (\<^verbatim>\<open>poll\<close> returns 0). The flag \<^verbatim>\<open>empty\<close> is then
  set exactly if no \<^verbatim>\<open>read\<close> of the run has returned bytes. If one has, the loop
  returns (by \<^verbatim>\<open>break\<close>) with the write error recorded so far, the timed-out wait is its
  last call, and \<^verbatim>\<open>rw_thread\<close> ends with what the statements after the loop make of that
  write error. If none has, no pass has been made: the worker sets \<^verbatim>\<open>errno\<close> to
  \<^verbatim>\<open>ETIME\<close>, reports \<^verbatim>\<open>poll()\<close> with it and calls \<^verbatim>\<open>exit(EXIT_FAILURE)\<close>; the calls of
  the whole run are the wait and the two of the message; this is how the loop and
  \<^verbatim>\<open>rw_thread\<close> end. And from any state whatever in which the next wait times out, the
  loop ends within that pass: in \<^verbatim>\<open>exit(EXIT_FAILURE)\<close> after the report of \<^verbatim>\<open>poll()\<close>
  with \<^verbatim>\<open>ETIME\<close> when \<^verbatim>\<open>empty\<close> is set, by returning the write error otherwise.
\<close>

theorem timeout_ends_loop:
  assumes head: "rw_passes k fd True 0 w = Some (e, we, w1)" and tmo: "times_out w1"
  shows "e = (\<not> list_ex is_data_read (since w w1)) \<and>
    (if list_ex is_data_read (since w w1)
     then rw_loop fd True 0 w = Some (Ret we, polled fd w1) \<and>
          rw_thread fd w = Some (rw_finish we (polled fd w1)) \<and>
          since w (polled fd w1) = since w w1 @ [(Poll fd POLLIN 1000, 0, errno w1)]
     else w1 = w \<and>
          rw_loop fd True 0 w =
            Some (Exit EXIT_FAILURE, reported ''poll()'' ((polled fd w)\<lparr>errno := ETIME\<rparr>)) \<and>
          rw_thread fd w =
            Some (Exit EXIT_FAILURE, reported ''poll()'' ((polled fd w)\<lparr>errno := ETIME\<rparr>)) \<and>
          (\<exists>r e1. since w (reported ''poll()'' ((polled fd w)\<lparr>errno := ETIME\<rparr>)) =
             [(Poll fd POLLIN 1000, 0, errno w), (Fprintf Stderr (PROGRAM_NAME @ '': ''), r, e1),
              (Perror ''poll()'', 0, ETIME)])) \<and>
    (times_out w0 \<longrightarrow>
       rw_loop fd e0 we0 w0 =
         Some (if e0
               then (Exit EXIT_FAILURE, reported ''poll()'' ((polled fd w0)\<lparr>errno := ETIME\<rparr>))
               else (Ret we0, polled fd w0)))"
proof -
  note inv = head_invariant[OF head]
  from inv have flag: "e = (\<not> list_ex is_data_read (since w w1))" by blast
  from tmo have rc0: "rc (reply_at w1 0) = 0" by (simp add: times_out_def)
  have any: "rw_loop fd e0 we0 w0 =
         Some (if e0
               then (Exit EXIT_FAILURE, reported ''poll()'' ((polled fd w0)\<lparr>errno := ETIME\<rparr>))
               else (Ret we0, polled fd w0))" if "times_out w0"
  proof (cases e0)
    case True
    from rw_loop_exit[OF pass_no_data[OF that True]] True show ?thesis by simp
  next
    case False
    from rw_loop_break[OF pass_quiet[OF that False]] False show ?thesis by simp
  qed
  have main: "e = (\<not> list_ex is_data_read (since w w1)) \<and>
    (if list_ex is_data_read (since w w1)
     then rw_loop fd True 0 w = Some (Ret we, polled fd w1) \<and>
          rw_thread fd w = Some (rw_finish we (polled fd w1)) \<and>
          since w (polled fd w1) = since w w1 @ [(Poll fd POLLIN 1000, 0, errno w1)]
     else w1 = w \<and>
          rw_loop fd True 0 w =
            Some (Exit EXIT_FAILURE, reported ''poll()'' ((polled fd w)\<lparr>errno := ETIME\<rparr>)) \<and>
          rw_thread fd w =
            Some (Exit EXIT_FAILURE, reported ''poll()'' ((polled fd w)\<lparr>errno := ETIME\<rparr>)) \<and>
          (\<exists>r e1. since w (reported ''poll()'' ((polled fd w)\<lparr>errno := ETIME\<rparr>)) =
             [(Poll fd POLLIN 1000, 0, errno w), (Fprintf Stderr (PROGRAM_NAME @ '': ''), r, e1),
              (Perror ''poll()'', 0, ETIME)]))"
  proof (cases e)
    case False
    with tmo have "rw_iter fd e we w1 = (Ret (Break, e, we), polled fd w1)"
      by (simp add: pass_quiet)
    then have "rw_loop fd e we w1 = Some (Ret we, polled fd w1)" by (rule rw_loop_break)
    with rw_loop_passes[OF head]
    have loop: "rw_loop fd True 0 w = Some (Ret we, polled fd w1)" by simp
    from inv have pre: "trace w1 = trace w @ since w w1" by simp
    have "trace (polled fd w1) = trace w1 @ [(Poll fd POLLIN 1000, 0, errno w1)]"
      using rc0 by (simp add: trace_polled)
    from since_prefix[OF pre this]
    have "since w (polled fd w1) = since w w1 @ [(Poll fd POLLIN 1000, 0, errno w1)]" .
    with loop thread_of_loop(1)[OF loop] flag False show ?thesis by simp
  next
    case True
    with inv have same: "w1 = w" by blast
    from tmo True have "rw_iter fd e we w1 =
        (Exit EXIT_FAILURE, reported ''poll()'' ((polled fd w1)\<lparr>errno := ETIME\<rparr>))"
      by (simp add: pass_no_data)
    then have "rw_loop fd e we w1 =
        Some (Exit EXIT_FAILURE, reported ''poll()'' ((polled fd w1)\<lparr>errno := ETIME\<rparr>))"
      by (rule rw_loop_exit)
    with rw_loop_passes[OF head] same
    have loop: "rw_loop fd True 0 w =
        Some (Exit EXIT_FAILURE, reported ''poll()'' ((polled fd w)\<lparr>errno := ETIME\<rparr>))" by simp
    have "\<exists>r e1. since w (reported ''poll()'' ((polled fd w)\<lparr>errno := ETIME\<rparr>)) =
             [(Poll fd POLLIN 1000, 0, errno w), (Fprintf Stderr (PROGRAM_NAME @ '': ''), r, e1),
              (Perror ''poll()'', 0, ETIME)]"
      using rc0 same
      by (simp add: since_def reported_def emit_def called_def polled_def reply_at_def next_reply_def)
    with loop thread_of_loop(2)[OF loop] flag True same show ?thesis by simp
  qed
  with any show ?thesis by blast
qed

theorem timeout_ends_loop_witness:
  "(rw_passes 0 3 True 0 w_silent = Some (True, 0, w_silent) \<and> times_out w_silent \<and>
    \<not> list_ex is_data_read (since w_silent w_silent) \<and>
    rw_thread 3 w_silent =
      Some (Exit EXIT_FAILURE, reported ''poll()'' ((polled 3 w_silent)\<lparr>errno := ETIME\<rparr>)) \<and>
    since w_silent (reported ''poll()'' ((polled 3 w_silent)\<lparr>errno := ETIME\<rparr>)) =
       [(Poll 3 POLLIN 1000, 0, 0), (Fprintf Stderr ''vcsnoop: '', 0, ETIME),
        (Perror ''poll()'', 0, ETIME)]) \<and>
   (rw_passes (Suc 0) 3 True 0 w_paste = Some (False, 0, w_paste_head) \<and>
    times_out w_paste_head \<and>
    list_ex is_data_read (since w_paste w_paste_head) \<and>
    rw_loop 3 True 0 w_paste = Some (Ret 0, polled 3 w_paste_head) \<and>
    rw_thread 3 w_paste = Some (Ret (), polled 3 w_paste_head) \<and>
    since w_paste (polled 3 w_paste_head) =
     [(Poll 3 POLLIN 1000, 1, 0), (Read 3 PIPE_BUF ''hi'', 2, 0),
      (Write STDOUT_FILENO ''hi'', 2, 0), (Poll 3 POLLIN 1000, 0, 0)] \<and>
    rw_loop 3 False 0 w_paste_head = Some (Ret 0, polled 3 w_paste_head))"
  using timeout_ends_loop [OF silent_facts(1,2)]
    timeout_ends_loop [OF head_paste paste_facts(1), of w_paste_head False 0]
    silent_facts paste_facts head_paste
  by (simp add: rw_finish_cases)

subsection \<open>Broken pipe\<close>

text \<open>
  C2. Let the loop of the worker be at its head, after passes in one of which a
  \<^verbatim>\<open>write\<close> to standard output has failed with \<^verbatim>\<open>EPIPE\<close>, and let the next pass find a
  timeout or the end of file. Then \<^verbatim>\<open>EPIPE\<close> is the write error recorded; the failed write
  is the last write of the run; no message has been written; the loop returns \<^verbatim>\<open>EPIPE\<close>;
  \<^verbatim>\<open>rw_thread\<close> returns, and its calls from the head on are the \<^verbatim>\<open>poll\<close> (and, at end
  of file, the \<^verbatim>\<open>read\<close> that returns 0) and then \<^verbatim>\<open>kill(0, SIGPIPE)\<close>, to the process
  group, and nothing else. And the pass in which a chunk arrives and its \<^verbatim>\<open>write\<close> fails
  with \<^verbatim>\<open>EPIPE\<close> makes these three calls, records \<^verbatim>\<open>EPIPE\<close> and continues the loop.
\<close>

theorem broken_pipe_deferred:
  assumes head: "rw_passes k fd True 0 w = Some (e, we, w1)"
    and epipe: "(Write STDOUT_FILENO buf, r, EPIPE) \<in> set (since w w1)" "r < 0"
    and ends: "times_out w1 \<or> end_of_file w1"
  shows "we = EPIPE \<and>
    last (writes (since w w1)) = (Write STDOUT_FILENO buf, r, EPIPE) \<and>
    \<not> list_ex is_report (since w w1) \<and>
    rw_loop fd True 0 w = Some (Ret EPIPE, loop_left fd w1) \<and>
    rw_thread fd w = Some (Ret (), called (Kill 0 SIGPIPE) (loop_left fd w1)) \<and>
    map fst (since w1 (called (Kill 0 SIGPIPE) (loop_left fd w1))) =
      (if times_out w1 then [Poll fd POLLIN 1000] else [Poll fd POLLIN 1000, Read fd PIPE_BUF []]) @
      [Kill 0 SIGPIPE] \<and>
    (data_arrives w0 \<and> rc (reply_at w0 2) < 0 \<and> err (reply_at w0 2) = EPIPE \<longrightarrow>
       rw_iter fd e0 0 w0 = (Ret (Continue, False, EPIPE), write_done fd w0) \<and>
       since w0 (write_done fd w0) =
         [(Poll fd POLLIN 1000, rc (reply_at w0 0), errno w0),
          (Read fd PIPE_BUF (chunk w0), int (length (chunk w0)), errno w0),
          (Write STDOUT_FILENO (chunk w0), rc (reply_at w0 2), EPIPE)])"
proof -
  let ?W = "(Write STDOUT_FILENO buf, r, EPIPE)"
  have rec: "recorded ?W = EPIPE" "is_write ?W" "EPIPE \<noteq> 0"
    using epipe(2) by (simp_all add: EPIPE_def)
  note inv = head_invariant[OF head]
  from inv have fw: "forwarding we (since w w1)" by blast
  from failed_write_is_last[OF fw epipe(1)] rec
  have last: "last (writes (since w w1)) = ?W" and we: "we = EPIPE" by simp_all
  from fw have norep: "\<not> list_ex is_report (since w w1)" by (simp add: forwarding_def)
  from epipe(1) have "list_ex is_data_read (since w w1) \<or> \<not> e"
    using inv by (cases e) auto
  with inv have ne: "\<not> e" by blast
  with ends have "(times_out w1 \<and> \<not> e) \<or> end_of_file w1" by blast
  from loop_leaves[OF head this] we
  have loop: "rw_loop fd True 0 w = Some (Ret EPIPE, loop_left fd w1)" by simp
  from thread_of_loop(1)[OF loop]
  have thread: "rw_thread fd w = Some (Ret (), called (Kill 0 SIGPIPE) (loop_left fd w1))"
    by (simp add: rw_finish_cases)
  have pass: "rw_iter fd e0 0 w0 = (Ret (Continue, False, EPIPE), write_done fd w0) \<and>
       since w0 (write_done fd w0) =
         [(Poll fd POLLIN 1000, rc (reply_at w0 0), errno w0),
          (Read fd PIPE_BUF (chunk w0), int (length (chunk w0)), errno w0),
          (Write STDOUT_FILENO (chunk w0), rc (reply_at w0 2), EPIPE)]"
    if "data_arrives w0 \<and> rc (reply_at w0 2) < 0 \<and> err (reply_at w0 2) = EPIPE"
    using that pass_write_error[of w0 fd e0] write_done_events[of w0 fd] by simp
  from we last norep loop thread finish_events(1)[OF ends] pass show ?thesis by blast
qed

theorem broken_pipe_deferred_witness:
  "rw_passes (Suc (Suc 0)) 3 True 0 w_eof = Some (False, EPIPE, w_eof_head) \<and>
   (Write STDOUT_FILENO ''abc'', - 1, EPIPE) \<in> set (since w_eof w_eof_head) \<and>
   (- 1 :: int) < 0 \<and> end_of_file w_eof_head \<and> \<not> times_out w_eof_head \<and>
   last (writes (since w_eof w_eof_head)) = (Write STDOUT_FILENO ''abc'', - 1, EPIPE) \<and>
   rw_thread 3 w_eof = Some (Ret (), called (Kill 0 SIGPIPE) (loop_left 3 w_eof_head)) \<and>
   since w_eof_head (called (Kill 0 SIGPIPE) (loop_left 3 w_eof_head)) =
     [(Poll 3 POLLIN 1000, 1, EPIPE), (Read 3 PIPE_BUF [], 0, EPIPE), (Kill 0 SIGPIPE, 0, EPIPE)] \<and>
   data_arrives w_eof \<and> rc (reply_at w_eof 2) < 0 \<and> err (reply_at w_eof 2) = EPIPE \<and>
   rw_iter 3 True 0 w_eof = (Ret (Continue, False, EPIPE), write_done 3 w_eof)"
proof -
  have neg: "(- 1 :: int) < 0" by simp
  have ends: "times_out w_eof_head \<or> end_of_file w_eof_head" using eof_facts(2) by simp
  from broken_pipe_deferred [OF head_eof eof_facts(1) neg ends, of w_eof True] eof_facts head_eof
  show ?thesis by simp
qed

subsection \<open>Short write\<close>

text \<open>
  C9. Let the loop of the worker be at its head, after passes in one of which a
  \<^verbatim>\<open>write\<close> to standard output has returned a count \<open>m\<close> with \<open>0 \<le> m\<close>, smaller than
  the number of bytes read, and let the next pass find a timeout or the end of file.
  Then \<^verbatim>\<open>EIO\<close> is the write error recorded; the short write is the last write of the run;
  no message has been written; the loop returns \<^verbatim>\<open>EIO\<close>; \<^verbatim>\<open>rw_thread\<close> ends in
  \<^verbatim>\<open>exit(EXIT_FAILURE)\<close>, and its calls from the head on are the \<^verbatim>\<open>poll\<close> (and, at end
  of file, the \<^verbatim>\<open>read\<close> that returns 0) and then the two calls of the message, which
  reports \<^verbatim>\<open>write()\<close> with \<^verbatim>\<open>errno = EIO\<close>. And the pass in which a chunk arrives and
  its \<^verbatim>\<open>write\<close> is short makes these three calls, records \<^verbatim>\<open>EIO\<close> and continues the
  loop.
\<close>

theorem short_write_is_error:
  assumes head: "rw_passes k fd True 0 w = Some (e, we, w1)"
    and short: "(Write STDOUT_FILENO buf, m, x) \<in> set (since w w1)" "0 \<le> m" "m < int (length buf)"
    and ends: "times_out w1 \<or> end_of_file w1"
  shows "we = EIO \<and>
    last (writes (since w w1)) = (Write STDOUT_FILENO buf, m, x) \<and>
    \<not> list_ex is_report (since w w1) \<and>
    rw_loop fd True 0 w = Some (Ret EIO, loop_left fd w1) \<and>
    rw_thread fd w =
      Some (Exit EXIT_FAILURE, reported ''write()'' ((loop_left fd w1)\<lparr>errno := EIO\<rparr>)) \<and>
    map fst (since w1 (reported ''write()'' ((loop_left fd w1)\<lparr>errno := EIO\<rparr>))) =
      (if times_out w1 then [Poll fd POLLIN 1000] else [Poll fd POLLIN 1000, Read fd PIPE_BUF []]) @
      [Fprintf Stderr (PROGRAM_NAME @ '': ''), Perror ''write()''] \<and>
    last (since w1 (reported ''write()'' ((loop_left fd w1)\<lparr>errno := EIO\<rparr>))) =
      (Perror ''write()'', 0, EIO) \<and>
    (data_arrives w0 \<and> 0 \<le> rc (reply_at w0 2) \<and> rc (reply_at w0 2) < int (length (chunk w0)) \<longrightarrow>
       rw_iter fd e0 0 w0 = (Ret (Continue, False, EIO), write_done fd w0) \<and>
       since w0 (write_done fd w0) =
         [(Poll fd POLLIN 1000, rc (reply_at w0 0), errno w0),
          (Read fd PIPE_BUF (chunk w0), int (length (chunk w0)), errno w0),
          (Write STDOUT_FILENO (chunk w0), rc (reply_at w0 2), errno w0)])"
proof -
  let ?W = "(Write STDOUT_FILENO buf, m, x)"
  have rec: "recorded ?W = EIO" "is_write ?W" "EIO \<noteq> 0" "EIO \<noteq> EPIPE"
    using short(2,3) by (simp_all add: EIO_def EPIPE_def)
  note inv = head_invariant[OF head]
  from inv have fw: "forwarding we (since w w1)" by blast
  from failed_write_is_last[OF fw short(1)] rec
  have last: "last (writes (since w w1)) = ?W" and we: "we = EIO" by simp_all
  from fw have norep: "\<not> list_ex is_report (since w w1)" by (simp add: forwarding_def)
  from short(1) have "list_ex is_data_read (since w w1) \<or> \<not> e"
    using inv by (cases e) auto
  with inv have ne: "\<not> e" by blast
  with ends have "(times_out w1 \<and> \<not> e) \<or> end_of_file w1" by blast
  from loop_leaves[OF head this] we
  have loop: "rw_loop fd True 0 w = Some (Ret EIO, loop_left fd w1)" by simp
  from thread_of_loop(1)[OF loop] rec(3,4)
  have thread: "rw_thread fd w =
      Some (Exit EXIT_FAILURE, reported ''write()'' ((loop_left fd w1)\<lparr>errno := EIO\<rparr>))"
    by (simp add: rw_finish_cases)
  have pass: "rw_iter fd e0 0 w0 = (Ret (Continue, False, EIO), write_done fd w0) \<and>
       since w0 (write_done fd w0) =
         [(Poll fd POLLIN 1000, rc (reply_at w0 0), errno w0),
          (Read fd PIPE_BUF (chunk w0), int (length (chunk w0)), errno w0),
          (Write STDOUT_FILENO (chunk w0), rc (reply_at w0 2), errno w0)]"
    if "data_arrives w0 \<and> 0 \<le> rc (reply_at w0 2) \<and> rc (reply_at w0 2) < int (length (chunk w0))"
    using that pass_short_write[of w0 fd e0] write_done_events[of w0 fd] by simp
  from we last norep loop thread finish_events(2,3)[OF ends] pass show ?thesis by blast
qed

theorem short_write_is_error_witness:
  "(rw_passes (Suc 0) 3 True 0 w_short = Some (False, EIO, w_short_head) \<and>
    (Write STDOUT_FILENO ''abc'', 2, 0) \<in> set (since w_short w_short_head) \<and>
    (0 :: int) \<le> 2 \<and> (2 :: int) < int (length ''abc'') \<and> times_out w_short_head \<and>
    rw_thread 3 w_short =
      Some (Exit EXIT_FAILURE, reported ''write()'' ((loop_left 3 w_short_head)\<lparr>errno := EIO\<rparr>)) \<and>
    since w_short_head (reported ''write()'' ((loop_left 3 w_short_head)\<lparr>errno := EIO\<rparr>)) =
      [(Poll 3 POLLIN 1000, 0, 0), (Fprintf Stderr ''vcsnoop: '', 0, EIO),
       (Perror ''write()'', 0, EIO)] \<and>
    data_arrives w_short \<and> 0 \<le> rc (reply_at w_short 2) \<and>
    rc (reply_at w_short 2) < int (length (chunk w_short)) \<and>
    rw_iter 3 True 0 w_short = (Ret (Continue, False, EIO), write_done 3 w_short)) \<and>
   (rw_passes (Suc 0) 3 True 0 w_short_eof = Some (False, EIO, w_short_eof_head) \<and>
    (Write STDOUT_FILENO ''abc'', 2, 0) \<in> set (since w_short_eof w_short_eof_head) \<and>
    end_of_file w_short_eof_head \<and> \<not> times_out w_short_eof_head \<and>
    rw_thread 3 w_short_eof =
      Some (Exit EXIT_FAILURE,
        reported ''write()'' ((loop_left 3 w_short_eof_head)\<lparr>errno := EIO\<rparr>)) \<and>
    since w_short_eof_head
      (reported ''write()'' ((loop_left 3 w_short_eof_head)\<lparr>errno := EIO\<rparr>)) =
      [(Poll 3 POLLIN 1000, 1, 0), (Read 3 PIPE_BUF [], 0, 0),
       (Fprintf Stderr ''vcsnoop: '', 0, EIO), (Perror ''write()'', 0, EIO)])"
proof -
  have b: "(0 :: int) \<le> 2" "(2 :: int) < int (length ''abc'')" by simp_all
  have ends: "times_out w_short_head \<or> end_of_file w_short_head" using short_facts(2) by simp
  have ends': "times_out w_short_eof_head \<or> end_of_file w_short_eof_head"
    using short_eof_facts(2) by simp
  from short_write_is_error [OF head_short short_facts(1) b ends, of w_short True]
    short_write_is_error [OF head_short_eof short_eof_facts(1) b ends']
    short_facts short_eof_facts head_short head_short_eof
  show ?thesis by simp
qed

subsection \<open>Forwarding\<close>

text \<open>
  C10, as amended. Let the loop of the worker be at its head, after any number of passes
  in which every failing \<^verbatim>\<open>write\<close> has set \<^verbatim>\<open>errno\<close> to a value other than 0. Every
  write but the last has transferred its whole chunk, so no write follows one that has
  failed. The chunks passed to \<^verbatim>\<open>write\<close> are the chunks read, in the order read, from
  the first on. The write error recorded is 0 if no write has failed, and otherwise what
  the last write, the only one that has failed, has left: its \<^verbatim>\<open>errno\<close>, or \<^verbatim>\<open>EIO\<close> when
  it was short; when it is 0, every chunk read has been written. Standard output has
  received the chunks read before the chunk of the last write, followed by the bytes the
  last write has transferred (its whole chunk, a proper prefix of it when it was short,
  nothing when it has returned an error). When a write error is recorded and a further
  chunk arrives, the next pass reads it, writes nothing and continues the loop with the
  same write error. When the next pass finds the end of file, or a timeout after a chunk
  has been read, the loop returns the write error and \<^verbatim>\<open>rw_thread\<close> ends: with
  \<^verbatim>\<open>kill(0, SIGPIPE)\<close> when the write error is \<^verbatim>\<open>EPIPE\<close>, with the report of
  \<^verbatim>\<open>write()\<close> with the write error and \<^verbatim>\<open>exit(EXIT_FAILURE)\<close> when it is another, and
  by returning when there is none; no chunk is read or written after the head, so the
  above holds of the whole run.
\<close>

theorem forwarding_until_first_failure:
  assumes head: "rw_passes k fd True 0 w = Some (e, we, w1)"
    and posix: "list_all write_sets_errno (since w w1)"
  shows "list_all write_ok (butlast (writes (since w w1))) \<and>
    map write_chunk (writes (since w w1)) =
      take (length (writes (since w w1))) (reads (since w w1)) \<and>
    we = (if list_all write_ok (writes (since w w1)) then 0
          else recorded (last (writes (since w w1)))) \<and>
    (we = 0 \<longrightarrow> map write_chunk (writes (since w w1)) = reads (since w w1)) \<and>
    forwarded (since w w1) =
      concat (take (length (writes (since w w1)) - 1) (reads (since w w1))) @
      (if writes (since w w1) = [] then [] else written (last (writes (since w w1)))) \<and>
    (data_arrives w1 \<and> we \<noteq> 0 \<longrightarrow>
       rw_passes (Suc k) fd True 0 w = Some (False, we, read_done fd w1) \<and>
       since w1 (read_done fd w1) =
         [(Poll fd POLLIN 1000, rc (reply_at w1 0), errno w1),
          (Read fd PIPE_BUF (chunk w1), int (length (chunk w1)), errno w1)]) \<and>
    ((times_out w1 \<and> \<not> e) \<or> end_of_file w1 \<longrightarrow>
       rw_loop fd True 0 w = Some (Ret we, loop_left fd w1) \<and>
       rw_thread fd w = Some (rw_finish we (loop_left fd w1)) \<and>
       rw_finish we (loop_left fd w1) =
         (if we = EPIPE then (Ret (), called (Kill 0 SIGPIPE) (loop_left fd w1))
          else if we \<noteq> 0
            then (Exit EXIT_FAILURE, reported ''write()'' ((loop_left fd w1)\<lparr>errno := we\<rparr>))
            else (Ret (), loop_left fd w1)) \<and>
       writes (since w (snd (rw_finish we (loop_left fd w1)))) = writes (since w w1) \<and>
       reads (since w (snd (rw_finish we (loop_left fd w1)))) = reads (since w w1) \<and>
       forwarded (since w (snd (rw_finish we (loop_left fd w1)))) = forwarded (since w w1))"
proof -
  let ?tr = "since w w1"
  note inv = head_invariant[OF head]
  from inv have fw: "forwarding we ?tr" and pre: "trace w1 = trace w @ ?tr" by blast+
  note fp = forwarding_posix[OF fw posix]
  have c3: "we = (if list_all write_ok (writes ?tr) then 0 else recorded (last (writes ?tr)))"
    using fp(3,4) by (cases "we = 0") auto
  have c4: "we = 0 \<longrightarrow> map write_chunk (writes ?tr) = reads ?tr" using fp(3) by blast
  have c6: "rw_passes (Suc k) fd True 0 w = Some (False, we, read_done fd w1) \<and>
       since w1 (read_done fd w1) =
         [(Poll fd POLLIN 1000, rc (reply_at w1 0), errno w1),
          (Read fd PIPE_BUF (chunk w1), int (length (chunk w1)), errno w1)]"
    if "data_arrives w1 \<and> we \<noteq> 0"
  proof -
    from that have "rw_iter fd e we w1 = (Ret (Continue, False, we), read_done fd w1)"
      by (simp add: pass_discard)
    from rw_passes_snoc[OF head this]
    have "rw_passes (Suc k) fd True 0 w = Some (False, we, read_done fd w1)" .
    moreover from that have "since w1 (read_done fd w1) =
         [(Poll fd POLLIN 1000, rc (reply_at w1 0), errno w1),
          (Read fd PIPE_BUF (chunk w1), int (length (chunk w1)), errno w1)]"
      by (simp add: since_def data_arrives_def trace_read_done trace_polled)
    ultimately show ?thesis by simp
  qed
  have c7: "rw_loop fd True 0 w = Some (Ret we, loop_left fd w1) \<and>
       rw_thread fd w = Some (rw_finish we (loop_left fd w1)) \<and>
       rw_finish we (loop_left fd w1) =
         (if we = EPIPE then (Ret (), called (Kill 0 SIGPIPE) (loop_left fd w1))
          else if we \<noteq> 0
            then (Exit EXIT_FAILURE, reported ''write()'' ((loop_left fd w1)\<lparr>errno := we\<rparr>))
            else (Ret (), loop_left fd w1)) \<and>
       writes (since w (snd (rw_finish we (loop_left fd w1)))) = writes ?tr \<and>
       reads (since w (snd (rw_finish we (loop_left fd w1)))) = reads ?tr \<and>
       forwarded (since w (snd (rw_finish we (loop_left fd w1)))) = forwarded ?tr"
    if ends: "(times_out w1 \<and> \<not> e) \<or> end_of_file w1"
  proof -
    from loop_leaves[OF head ends]
    have loop: "rw_loop fd True 0 w = Some (Ret we, loop_left fd w1)" .
    from ends have ends': "times_out w1 \<or> end_of_file w1" by blast
    have fin: "rw_finish we (loop_left fd w1) =
         (if we = EPIPE then (Ret (), called (Kill 0 SIGPIPE) (loop_left fd w1))
          else if we \<noteq> 0
            then (Exit EXIT_FAILURE, reported ''write()'' ((loop_left fd w1)\<lparr>errno := we\<rparr>))
            else (Ret (), loop_left fd w1))"
      by (simp add: rw_finish_cases)
    from loop thread_of_loop(1)[OF loop] fin no_writes_after[OF ends' pre, of we fd]
    show ?thesis by blast
  qed
  from fp(1,2,5) c3 c4 c6 c7 show ?thesis by blast
qed

theorem forwarding_until_first_failure_witness:
  "(rw_passes (Suc 0) 3 True 0 w_eof = Some (False, EPIPE, w_eof_mid) \<and>
    list_all write_sets_errno (since w_eof w_eof_mid) \<and>
    data_arrives w_eof_mid \<and> EPIPE \<noteq> 0 \<and>
    rw_passes (Suc (Suc 0)) 3 True 0 w_eof = Some (False, EPIPE, read_done 3 w_eof_mid) \<and>
    since w_eof_mid (read_done 3 w_eof_mid) =
      [(Poll 3 POLLIN 1000, 1, EPIPE), (Read 3 PIPE_BUF ''de'', 2, EPIPE)]) \<and>
   (rw_passes (Suc (Suc 0)) 3 True 0 w_eof = Some (False, EPIPE, w_eof_head) \<and>
    list_all write_sets_errno (since w_eof w_eof_head) \<and>
    end_of_file w_eof_head \<and>
    reads (since w_eof w_eof_head) = [''abc'', ''de''] \<and>
    map write_chunk (writes (since w_eof w_eof_head)) = [''abc''] \<and>
    forwarded (since w_eof w_eof_head) = [] \<and>
    rw_thread 3 w_eof = Some (Ret (), called (Kill 0 SIGPIPE) (loop_left 3 w_eof_head)) \<and>
    forwarded (since w_eof (called (Kill 0 SIGPIPE) (loop_left 3 w_eof_head))) = [])"
  using forwarding_until_first_failure [OF head_eof_mid eof_mid_facts(1)]
    forwarding_until_first_failure [OF head_eof eof_facts(8)]
    eof_facts eof_mid_facts head_eof head_eof_mid
  by (simp add: rw_finish_cases)

text \<open>
  C10 as stated fails on a short write: of the chunk \<^verbatim>\<open>abc\<close>, the first and only chunk
  read, the write transfers \<^verbatim>\<open>ab\<close>. Standard output has received \<^verbatim>\<open>ab\<close>, which is
  neither the chunks written before the first failure (none) nor the chunks read before
  it (\<^verbatim>\<open>abc\<close>).
\<close>

theorem forwarding_counterexample:
  "rw_thread 3 w_short = Some (Exit EXIT_FAILURE, w_short_end) \<and>
   list_all write_sets_errno (since w_short w_short_end) \<and>
   forwarded (since w_short w_short_end) = ''ab'' \<and>
   concat (map write_chunk (takeWhile write_ok (writes (since w_short w_short_end)))) = [] \<and>
   concat (reads (takeWhile write_ok (since w_short w_short_end))) = ''abc''"
  using run_short
  by (simp add: since_def w_short_def w_short_end_def start_def writes_def reads_def
      forwarded_def)

section \<open>The command line\<close>

lemma getopt_positional:
  "list_all positional args \<Longrightarrow> getopt p skipped args = Done (skipped @ args)"
proof (induction args arbitrary: skipped)
  case Nil
  show ?case by simp
next
  case (Cons a as)
  from Cons.prems have pa: "positional a" and rest: "list_all positional as" by simp_all
  from pa have ne: "a \<noteq> ''--''" by auto
  from pa ne have "getopt p skipped (a # as) =
      (if p then Done (skipped @ a # as) else getopt p (skipped @ [a]) as)"
    by (cases a rule: positional.cases) simp_all
  with Cons.IH[OF rest, of "skipped @ [a]"] show ?case by (cases p) simp_all
qed

lemma main_help:
  assumes "wants_help (getopt (posixly_correct w) [] (tl argv))"
  shows "main argv w = (Exit EXIT_SUCCESS,
     called (Fprintf Stdout help_text) (called (Fprintf Stdout usage_line)
       (emit (Getopt argv) (case getopt (posixly_correct w) [] (tl argv) of
             Opt c optarg \<Rightarrow> int (of_char c) | Done args \<Rightarrow> - 1) w)))"
  using assms
  by (cases "getopt (posixly_correct w) [] (tl argv)")
    (auto simp add: main_def show_usage_def exec fprintf_def usage_line_def help_text_def
      PROGRAM_NAME_def)

lemma main_misuse:
  assumes "misuse (getopt (posixly_correct w) [] (tl argv))"
  shows "main argv w = (Exit EXIT_FAILURE,
     called (Fprintf Stderr usage_line)
       (emit (Getopt argv) (case getopt (posixly_correct w) [] (tl argv) of
             Opt c optarg \<Rightarrow> int (of_char c) | Done args \<Rightarrow> - 1) w))"
  using assms
  by (cases "getopt (posixly_correct w) [] (tl argv)")
    (auto simp add: main_def show_usage_def exec fprintf_def usage_line_def help_text_def
      PROGRAM_NAME_def)


lemma getopt_skips:
  "list_all positional pre \<Longrightarrow> getopt False skipped (pre @ rest) = getopt False (skipped @ pre) rest"
proof (induction pre arbitrary: skipped)
  case Nil
  show ?case by simp
next
  case (Cons a as)
  from Cons.prems have pa: "positional a" and rest: "list_all positional as" by simp_all
  from pa have ne: "a \<noteq> ''--''" by auto
  from pa ne have "getopt False skipped (a # as @ rest) = getopt False (skipped @ [a]) (as @ rest)"
    by (cases a rule: positional.cases) simp_all
  with Cons.IH[OF rest, of "skipped @ [a]"] show ?case by simp
qed

lemma getopt_first:
  assumes "list_all positional pre" "p \<longrightarrow> pre = []"
  shows "getopt p [] (pre @ rest) = getopt p pre rest"
proof (cases p)
  case True
  with assms show ?thesis by simp
next
  case False
  with getopt_skips[OF assms(1), of "[]" rest] show ?thesis by simp
qed

lemma vcsnoop_exit:
  "main argv (start e p) = (Exit s, w') \<Longrightarrow> atexit_fns w' = 0 \<Longrightarrow>
   vcsnoop argv (start e p) = (s, w')"
  by (simp add: vcsnoop_def process_exit_def)

text \<open>
  C8. When the first option \<^verbatim>\<open>getopt\<close> finds is \<^verbatim>\<open>-h\<close> or \<^verbatim>\<open>--help\<close>, the process
  prints the usage line \<^verbatim>\<open>Usage: vcsnoop /dev/ttyN\<close> and the help text to standard
  output, calls nothing else and exits with status 0. When it is any other option, or when
  there is no option and the number of arguments left is not one, the process prints the
  usage line to standard error, calls nothing else and exits with status 1. The first
  option is the first argument that is not positional, before any \<^verbatim>\<open>--\<close> (in the POSIX
  mode of \<^verbatim>\<open>getopt\<close>: the first argument, if it is not positional): an argument that
  starts with \<^verbatim>\<open>-h\<close>, or is \<^verbatim>\<open>--help\<close>, asks for the help; one that starts with
  \<^verbatim>\<open>-\<close> and another character, or with \<^verbatim>\<open>--\<close> and is neither \<^verbatim>\<open>--\<close> nor
  \<^verbatim>\<open>--help\<close>, is rejected. Positional arguments alone, also after \<^verbatim>\<open>--\<close>, are rejected
  when their number is not one.
\<close>

theorem cli_contract:
  "(wants_help (getopt p [] (tl argv)) \<longrightarrow>
      fst (vcsnoop argv (start e p)) = EXIT_SUCCESS \<and>
      map fst (trace (snd (vcsnoop argv (start e p)))) =
        [Getopt argv, Fprintf Stdout usage_line, Fprintf Stdout help_text]) \<and>
   (misuse (getopt p [] (tl argv)) \<longrightarrow>
      fst (vcsnoop argv (start e p)) = EXIT_FAILURE \<and>
      map fst (trace (snd (vcsnoop argv (start e p)))) =
        [Getopt argv, Fprintf Stderr usage_line]) \<and>
   (list_all positional pre \<and> (p \<longrightarrow> pre = []) \<longrightarrow>
      wants_help (getopt p [] (pre @ (CHR ''-'' # CHR ''h'' # rest) # as)) \<and>
      wants_help (getopt p [] (pre @ ''--help'' # as)) \<and>
      (c \<noteq> CHR ''h'' \<and> c \<noteq> CHR ''-'' \<longrightarrow>
         misuse (getopt p [] (pre @ (CHR ''-'' # c # rest) # as))) \<and>
      (rest \<noteq> [] \<and> rest \<noteq> ''help'' \<longrightarrow>
         misuse (getopt p [] (pre @ (CHR ''-'' # CHR ''-'' # rest) # as)))) \<and>
   (list_all positional args \<and> length args \<noteq> 1 \<longrightarrow>
      misuse (getopt p [] args) \<and> misuse (getopt p [] (''--'' # args)))"
proof -
  let ?w = "start e p"
  have p: "posixly_correct ?w = p" and a: "atexit_fns ?w = 0" by (simp_all add: start_def)
  have usage: "fst (vcsnoop argv ?w) = EXIT_SUCCESS \<and>
      map fst (trace (snd (vcsnoop argv ?w))) =
        [Getopt argv, Fprintf Stdout usage_line, Fprintf Stdout help_text]"
    if "wants_help (getopt p [] (tl argv))"
  proof -
    from that p have "wants_help (getopt (posixly_correct ?w) [] (tl argv))" by simp
    note run = main_help[OF this]
    from vcsnoop_exit[OF run] a show ?thesis
      by (simp add: exec called_simps start_def)
  qed
  have bad: "fst (vcsnoop argv ?w) = EXIT_FAILURE \<and>
      map fst (trace (snd (vcsnoop argv ?w))) = [Getopt argv, Fprintf Stderr usage_line]"
    if "misuse (getopt p [] (tl argv))"
  proof -
    from that p have "misuse (getopt (posixly_correct ?w) [] (tl argv))" by simp
    note run = main_misuse[OF this]
    from vcsnoop_exit[OF run] a show ?thesis
      by (simp add: exec called_simps start_def)
  qed
  have opts: "wants_help (getopt p [] (pre @ (CHR ''-'' # CHR ''h'' # rest) # as)) \<and>
      wants_help (getopt p [] (pre @ ''--help'' # as)) \<and>
      (c \<noteq> CHR ''h'' \<and> c \<noteq> CHR ''-'' \<longrightarrow>
         misuse (getopt p [] (pre @ (CHR ''-'' # c # rest) # as))) \<and>
      (rest \<noteq> [] \<and> rest \<noteq> ''help'' \<longrightarrow>
         misuse (getopt p [] (pre @ (CHR ''-'' # CHR ''-'' # rest) # as)))"
    if "list_all positional pre \<and> (p \<longrightarrow> pre = [])"
  proof -
    from that have f: "getopt p [] (pre @ r) = getopt p pre r" for r
      by (simp add: getopt_first)
    show ?thesis unfolding f by auto
  qed
  have count: "misuse (getopt p [] args) \<and> misuse (getopt p [] (''--'' # args))"
    if "list_all positional args \<and> length args \<noteq> 1"
    using that getopt_positional[of args p "[]"] by simp
  from usage bad opts count show ?thesis by blast
qed

theorem cli_contract_witness:
  "(wants_help (getopt False [] (tl [''vcsnoop'', ''--help''])) \<and>
    fst (vcsnoop [''vcsnoop'', ''--help''] (start (answers []) False)) = 0 \<and>
    map fst (trace (snd (vcsnoop [''vcsnoop'', ''--help''] (start (answers []) False)))) =
      [Getopt [''vcsnoop'', ''--help''],
       Fprintf Stdout (''Usage: vcsnoop /dev/ttyN'' @ [CHR 0x0A]), Fprintf Stdout help_text]) \<and>
   (misuse (getopt False [] (tl [''vcsnoop'', ''/dev/tty1'', ''/dev/tty2''])) \<and>
    fst (vcsnoop [''vcsnoop'', ''/dev/tty1'', ''/dev/tty2''] (start (answers []) False)) = 1 \<and>
    map fst (trace (snd (vcsnoop [''vcsnoop'', ''/dev/tty1'', ''/dev/tty2'']
        (start (answers []) False)))) =
      [Getopt [''vcsnoop'', ''/dev/tty1'', ''/dev/tty2''],
       Fprintf Stderr (''Usage: vcsnoop /dev/ttyN'' @ [CHR 0x0A])]) \<and>
   (list_all positional [''/dev/tty1''] \<and>
    wants_help (getopt False [] ([''/dev/tty1''] @ ''-h'' # [])) \<and>
    wants_help (getopt False [] ([''/dev/tty1''] @ ''--help'' # [])) \<and>
    misuse (getopt False [] ([''/dev/tty1''] @ ''-x'' # [])) \<and>
    misuse (getopt False [] ([''/dev/tty1''] @ ''--helpx'' # []))) \<and>
   (list_all positional [] \<and> length ([] :: string list) \<noteq> 1 \<and> misuse (getopt True [] []))"
  using cli_contract [where p = False and argv = "[''vcsnoop'', ''--help'']" and e = "answers []"
      and pre = "[''/dev/tty1'']" and rest = "[]" and c = "CHR ''x''" and as = "[]"
      and args = "[]"]
    cli_contract [where p = False and argv = "[''vcsnoop'', ''/dev/tty1'', ''/dev/tty2'']"
      and e = "answers []" and pre = "[''/dev/tty1'']" and rest = "''helpx''" and as = "[]"
      and args = "[]"]
    cli_contract [where p = True and args = "[]" and pre = "[]"]
  by (simp add: usage_line_def EXIT_SUCCESS_def EXIT_FAILURE_def)

end
